theory Spec2Isabelle
  imports Complex_Main
begin

section \<open>Numbers, requests and the stored data\<close>

text \<open>
  The server keeps every quantity (clock readings in milliseconds, balances, prices, hours)
  as a JavaScript Number. A finite Number is modelled as an exact rational: the rounding of
  IEEE doubles is left out, so a quotient such as 20 / 7 is that rational and not its
  nearest double, and there is one zero. Besides the finite Numbers there are NaN and the
  two infinities, which a request can send and which the arithmetic of a handler can produce.

  The user objects of the store hold finite Numbers and tier numbers (the types of the
  record \<open>user\<close> below): these are the stores that the requests modelled here are run on. What
  a handler writes is not always of that kind, and the handler that can write something else
  says so in its result.

  A handler reads the clock once in the model. The source calls \<^verbatim>\<open>Date.now()\<close> several times
  inside one synchronous handler; the model gives all of them the same reading \<open>now\<close>.
\<close>

datatype jsnum = Num rat | NaN | PosInf | NegInf

text \<open>
  The operators \<^verbatim>\<open>+\<close>, \<^verbatim>\<open>-\<close>, \<^verbatim>\<open>*\<close>, \<^verbatim>\<open>/\<close> and \<^verbatim>\<open><\<close> on Numbers. NaN makes every result NaN and
  every comparison false; a finite Number over 0 is an infinity with the sign of the
  numerator, and 0 over 0 is NaN; infinity minus infinity and infinity times 0 are NaN.
\<close>

definition js_negative :: "jsnum \<Rightarrow> bool" where
  "js_negative x = (case x of Num a \<Rightarrow> a < 0 | NegInf \<Rightarrow> True | other \<Rightarrow> False)"

definition js_inf :: "bool \<Rightarrow> jsnum" where
  "js_inf negative = (if negative then NegInf else PosInf)"

definition js_neg :: "jsnum \<Rightarrow> jsnum" where
  "js_neg x = (case x of Num a \<Rightarrow> Num (- a) | NaN \<Rightarrow> NaN | PosInf \<Rightarrow> NegInf | NegInf \<Rightarrow> PosInf)"

definition js_add :: "jsnum \<Rightarrow> jsnum \<Rightarrow> jsnum" where
  "js_add x y =
    (case x of
       NaN \<Rightarrow> NaN
     | Num a \<Rightarrow> (case y of Num b \<Rightarrow> Num (a + b) | other \<Rightarrow> other)
     | PosInf \<Rightarrow> (case y of NaN \<Rightarrow> NaN | NegInf \<Rightarrow> NaN | other \<Rightarrow> PosInf)
     | NegInf \<Rightarrow> (case y of NaN \<Rightarrow> NaN | PosInf \<Rightarrow> NaN | other \<Rightarrow> NegInf))"

definition js_sub :: "jsnum \<Rightarrow> jsnum \<Rightarrow> jsnum" where
  "js_sub x y = js_add x (js_neg y)"

definition js_mul :: "jsnum \<Rightarrow> jsnum \<Rightarrow> jsnum" where
  "js_mul x y =
    (case x of
       NaN \<Rightarrow> NaN
     | Num a \<Rightarrow>
        (case y of
           Num b \<Rightarrow> Num (a * b)
         | NaN \<Rightarrow> NaN
         | other \<Rightarrow> if a = 0 then NaN else js_inf (js_negative x \<noteq> js_negative y))
     | other \<Rightarrow>
        (case y of
           NaN \<Rightarrow> NaN
         | Num b \<Rightarrow> if b = 0 then NaN else js_inf (js_negative x \<noteq> js_negative y)
         | other2 \<Rightarrow> js_inf (js_negative x \<noteq> js_negative y)))"

definition js_div :: "jsnum \<Rightarrow> jsnum \<Rightarrow> jsnum" where
  "js_div x y =
    (case x of
       NaN \<Rightarrow> NaN
     | Num a \<Rightarrow>
        (case y of
           Num b \<Rightarrow>
            if b = 0 then (if a = 0 then NaN else js_inf (a < 0)) else Num (a / b)
         | NaN \<Rightarrow> NaN
         | other \<Rightarrow> Num 0)
     | other \<Rightarrow>
        (case y of
           Num b \<Rightarrow> js_inf (js_negative x \<noteq> js_negative y)
         | other2 \<Rightarrow> NaN))"

definition js_lt :: "jsnum \<Rightarrow> jsnum \<Rightarrow> bool" where
  "js_lt x y =
    (case x of
       NaN \<Rightarrow> False
     | Num a \<Rightarrow> (case y of Num b \<Rightarrow> a < b | PosInf \<Rightarrow> True | other \<Rightarrow> False)
     | PosInf \<Rightarrow> False
     | NegInf \<Rightarrow> (case y of Num b \<Rightarrow> True | PosInf \<Rightarrow> True | other \<Rightarrow> False))"

text \<open>\<^verbatim>\<open>Math.round\<close>: the nearest integer, a tie going up.\<close>

definition js_round :: "rat \<Rightarrow> rat" where
  "js_round x = of_int \<lfloor>x + 1 / 2\<rfloor>"

text \<open>
  A string taken from a query or from a stored field is absent (\<open>None\<close>, for undefined and
  null) or present; the empty string is falsy as well.
\<close>

definition truthy :: "string option \<Rightarrow> bool" where
  "truthy s = (case s of None \<Rightarrow> False | Some v \<Rightarrow> v \<noteq> [])"

text \<open>An entry of a user's device history: the device, the clock reading, the action.\<close>

type_synonym hwid_entry = "string \<times> rat \<times> string"

text \<open>
  A user object of \<^verbatim>\<open>db.users\<close>. A field the source leaves undefined until first written
  (\<^verbatim>\<open>paused\<close>, \<^verbatim>\<open>pause_locked\<close>, \<^verbatim>\<open>paused_time_remaining\<close>, \<^verbatim>\<open>hwid_history\<close>) holds
  the value the source's reads give it: \<open>False\<close>, \<open>None\<close>, the empty list.
\<close>

record user =
  user_id :: string
  discord_id :: string
  username :: string
  license_key :: string
  hwid :: "string option"
  roblox_username :: "string option"
  balance :: rat
  subscription_tier :: nat
  subscription_expires :: rat
  warnings :: nat
  last_active :: rat
  paused :: bool
  pause_locked :: bool
  paused_time_remaining :: "rat option"
  paused_at :: "rat option"
  unpause_requested :: bool
  hwid_history :: "hwid_entry list"

text \<open>
  A plan of the catalogue, with the fields the handlers below read. \<open>enabled\<close> is false only
  when the stored flag is the boolean false.
\<close>

record plan =
  pname :: string
  price :: rat
  slots :: int
  enabled :: bool
  adminOnly :: bool

text \<open>An entry of the warnings log: user id, user name, reason, clock reading, admin.\<close>

type_synonym warning_entry = "string \<times> string \<times> string \<times> rat \<times> string"

record db =
  users :: "user list"
  banned_hwids :: "string list"
  warnings_log :: "warning_entry list"
  global_paused :: bool
  sales_closed :: bool
  global_min_hours :: "rat option"
  plans :: "(nat \<times> plan) list option"

section \<open>Helpers of the store\<close>

definition findUser_id :: "db \<Rightarrow> string \<Rightarrow> user option" where
  "findUser_id d i = find (\<lambda>u. user_id u = i) (users d)"

definition findUser_license_key :: "db \<Rightarrow> string \<Rightarrow> user option" where
  "findUser_license_key d k = find (\<lambda>u. license_key u = k) (users d)"

text \<open>
  \<^verbatim>\<open>updateUser(id, updates)\<close> overwrites fields of the first user with that id; the updates
  are a function on the user object.
\<close>

fun update_first :: "string \<Rightarrow> (user \<Rightarrow> user) \<Rightarrow> user list \<Rightarrow> user list" where
  "update_first i f [] = []"
| "update_first i f (u # us) = (if user_id u = i then f u # us else u # update_first i f us)"

definition updateUser :: "string \<Rightarrow> (user \<Rightarrow> user) \<Rightarrow> db \<Rightarrow> db" where
  "updateUser i f d = d\<lparr>users := update_first i f (users d)\<rparr>"

definition createUser :: "user \<Rightarrow> db \<Rightarrow> db" where
  "createUser u d = d\<lparr>users := users d @ [u]\<rparr>"

definition isHWIDBanned :: "db \<Rightarrow> string \<Rightarrow> bool" where
  "isHWIDBanned d h = (h \<in> set (banned_hwids d))"

text \<open>The guard \<^verbatim>\<open>hwid && isHWIDBanned(hwid)\<close>.\<close>

definition banned_device :: "db \<Rightarrow> string option \<Rightarrow> bool" where
  "banned_device d h = (case h of None \<Rightarrow> False | Some v \<Rightarrow> v \<noteq> [] \<and> isHWIDBanned d v)"

section \<open>The plan catalogue\<close>

definition DEFAULT_PLANS :: "(nat \<times> plan) list" where
  "DEFAULT_PLANS =
    [(1, \<lparr>pname = ''Bronze'', price = 1, slots = 2, enabled = True, adminOnly = False\<rparr>),
     (2, \<lparr>pname = ''Silver'', price = 2, slots = 2, enabled = True, adminOnly = False\<rparr>),
     (3, \<lparr>pname = ''Gold'', price = 7 / 2, slots = 4, enabled = True, adminOnly = False\<rparr>),
     (4, \<lparr>pname = ''Diamond'', price = 17 / 4, slots = 2, enabled = True, adminOnly = False\<rparr>),
     (5, \<lparr>pname = ''Diamond Private'', price = 5, slots = 1, enabled = True,
          adminOnly = True\<rparr>)]"

definition getGlobalMinHours :: "db \<Rightarrow> rat" where
  "getGlobalMinHours d =
    (case global_min_hours d of None \<Rightarrow> 2 | Some m \<Rightarrow> if m = 0 then 2 else m)"

definition getPlans :: "db \<Rightarrow> (nat \<times> plan) list" where
  "getPlans d = (case plans d of None \<Rightarrow> DEFAULT_PLANS | Some ps \<Rightarrow> ps)"

text \<open>
  \<^verbatim>\<open>PLANS[tier]\<close> reads the catalogue, a plain object, under whatever key the request's
  \<^verbatim>\<open>tier\<close> converts to. The catalogue's own keys are tier numbers. Every other key is looked
  up in \<^verbatim>\<open>Object.prototype\<close>, which has twelve members; a key that names none of them gives
  undefined.

  The tier of a request is modelled for JSON numbers and strings: \<open>TNum n\<close> is the number
  \<open>n\<close> or the string of its decimal digits (the same key, and alike under \<^verbatim>\<open>==\<close> and \<^verbatim>\<open>>\<close>),
  \<open>TInherited k\<close> is the string naming the member \<open>k\<close> of \<^verbatim>\<open>Object.prototype\<close>, and \<open>TOther\<close>
  is any other number or string.
\<close>

datatype proto_key =
    K_constructor
  | K_proto
  | K_hasOwnProperty
  | K_isPrototypeOf
  | K_propertyIsEnumerable
  | K_toLocaleString
  | K_toString
  | K_valueOf
  | K_defineGetter
  | K_defineSetter
  | K_lookupGetter
  | K_lookupSetter

datatype tier_key = TNum nat | TInherited proto_key | TOther

text \<open>What a lookup finds: a plan of the catalogue, or a member of \<^verbatim>\<open>Object.prototype\<close>.\<close>

datatype plan_ref = Own plan | Inherited proto_key

definition PLANS :: "db \<Rightarrow> tier_key \<Rightarrow> plan_ref option" where
  "PLANS d t =
    (case t of
       TNum n \<Rightarrow> map_option Own (map_of (getPlans d) n)
     | TInherited k \<Rightarrow> Some (Inherited k)
     | TOther \<Rightarrow> None)"

text \<open>
  The properties the handlers read from what they take for a plan. The members of
  \<^verbatim>\<open>Object.prototype\<close> are functions, but for \<^verbatim>\<open>__proto__\<close>, which is the prototype object
  itself: a function has a \<^verbatim>\<open>name\<close> (that of \<^verbatim>\<open>constructor\<close> is \<^verbatim>\<open>Object\<close>), and none of them
  has a \<^verbatim>\<open>price\<close>, \<^verbatim>\<open>slots\<close>, \<^verbatim>\<open>enabled\<close> or \<^verbatim>\<open>adminOnly\<close>. An undefined price is NaN
  in arithmetic.
\<close>

definition proto_name :: "proto_key \<Rightarrow> string option" where
  "proto_name k =
    (case k of
       K_constructor \<Rightarrow> Some ''Object''
     | K_proto \<Rightarrow> None
     | K_hasOwnProperty \<Rightarrow> Some ''hasOwnProperty''
     | K_isPrototypeOf \<Rightarrow> Some ''isPrototypeOf''
     | K_propertyIsEnumerable \<Rightarrow> Some ''propertyIsEnumerable''
     | K_toLocaleString \<Rightarrow> Some ''toLocaleString''
     | K_toString \<Rightarrow> Some ''toString''
     | K_valueOf \<Rightarrow> Some ''valueOf''
     | K_defineGetter \<Rightarrow> Some ''__defineGetter__''
     | K_defineSetter \<Rightarrow> Some ''__defineSetter__''
     | K_lookupGetter \<Rightarrow> Some ''__lookupGetter__''
     | K_lookupSetter \<Rightarrow> Some ''__lookupSetter__'')"

definition plan_name :: "plan_ref \<Rightarrow> string option" where
  "plan_name p = (case p of Own q \<Rightarrow> Some (pname q) | Inherited k \<Rightarrow> proto_name k)"

definition plan_price :: "plan_ref \<Rightarrow> jsnum" where
  "plan_price p = (case p of Own q \<Rightarrow> Num (price q) | Inherited k \<Rightarrow> NaN)"

text \<open>\<^verbatim>\<open>plan.enabled === false\<close> and \<^verbatim>\<open>plan.adminOnly\<close>.\<close>

definition plan_disabled :: "plan_ref \<Rightarrow> bool" where
  "plan_disabled p = (case p of Own q \<Rightarrow> \<not> enabled q | Inherited k \<Rightarrow> False)"

definition plan_adminOnly :: "plan_ref \<Rightarrow> bool" where
  "plan_adminOnly p = (case p of Own q \<Rightarrow> adminOnly q | Inherited k \<Rightarrow> False)"

section \<open>Removing hours (admin)\<close>

text \<open>
  The admin routes stand behind the \<^verbatim>\<open>requireAdmin\<close> middleware; the handlers are modelled
  as they run once it has let the request through.
\<close>

datatype admin_error = UserNotFound | InvalidHours | NoPausedUsers

text \<open>
  \<^verbatim>\<open>POST /api/admin/remove-hours/:userId\<close>. \<^verbatim>\<open>parseFloat(hours) || 0\<close> turns NaN into 0;
  an infinite amount makes the new expiry minus infinity, which is before every clock reading.
  The answer carries the new expiry.
\<close>

definition remove_hours :: "rat \<Rightarrow> string \<Rightarrow> jsnum \<Rightarrow> db \<Rightarrow> db \<times> (admin_error + rat)" where
  "remove_hours now userId hours d =
    (case findUser_id d userId of
       None \<Rightarrow> (d, Inl UserNotFound)
     | Some u \<Rightarrow>
        (case hours of
           NaN \<Rightarrow> (d, Inl InvalidHours)
         | NegInf \<Rightarrow> (d, Inl InvalidHours)
         | PosInf \<Rightarrow>
            (updateUser userId
               (\<lambda>x. x\<lparr>subscription_expires := 0, subscription_tier := 0\<rparr>) d, Inr 0)
         | Num h \<Rightarrow>
            if h \<le> 0 then (d, Inl InvalidHours)
            else
              let newExpires = subscription_expires u - h * 3600 * 1000 in
              if newExpires < now
              then (updateUser userId
                      (\<lambda>x. x\<lparr>subscription_expires := 0, subscription_tier := 0\<rparr>) d, Inr 0)
              else (updateUser userId (\<lambda>x. x\<lparr>subscription_expires := newExpires\<rparr>) d,
                    Inr newExpires)))"

section \<open>Subscribing\<close>

text \<open>
  \<^verbatim>\<open>POST /api/subscribe\<close>. The refusals, in the order of the source: no session user (401),
  a banned bound device, two warnings, sales closed, the global pause, hours out of range,
  no plan under the tier's key, a disabled plan, an admin-only plan, full slots, too small a
  balance. \<open>TypeError\<close> is the exception of a property read on undefined (the session user
  is not in the store, or the user's current tier has no plan).
\<close>

datatype subscribe_error =
    NotAuthenticated
  | AccountBanned
  | AccountBannedWarnings
  | SalesClosed
  | PlansPaused
  | MinimumPurchase rat
  | InvalidTier
  | PlanDisabled
  | PlanNotAvailable
  | SlotsFull "string option" nat int
  | InsufficientBalance jsnum rat
  | TypeError

text \<open>
  The answer of a success: the Numbers the handler computed for it (in the JSON sent, NaN
  and the infinities are written \<^verbatim>\<open>null\<close>).
\<close>

record subscribe_ok =
  new_balance :: jsnum
  expires :: jsnum
  hours_added :: rat
  converted_hours :: jsnum
  total_hours :: jsnum

text \<open>
  The result of a request. A refusal leaves the store as it was. A success writes the new
  balance, the request's tier and the new expiry into the user object and answers:
  \<open>Subscribed\<close> carries the store after the write when the three written values are a
  finite balance, a tier number and a finite expiry. When they are not (NaN, an infinity, a
  key of \<^verbatim>\<open>Object.prototype\<close>), the handler has written them all the same and has answered
  success, and the store after it is none of the typed stores: \<open>SubscribedUntyped\<close> carries
  the answer, whose \<open>new_balance\<close> and \<open>expires\<close> are the values written, next to the
  request's tier.
\<close>

datatype subscribe_result =
    Refused subscribe_error
  | Subscribed db subscribe_ok
  | SubscribedUntyped subscribe_ok

text \<open>
  \<^verbatim>\<open>parsedHours = Math.round(parseFloat(hours) * 10) / 10\<close>, and the range test
  \<^verbatim>\<open>isNaN(parsedHours) || parsedHours < minHours || parsedHours > 168\<close>: \<open>None\<close> when the
  request is refused.
\<close>

definition parsedHours :: "jsnum \<Rightarrow> jsnum" where
  "parsedHours hours = (case hours of Num x \<Rightarrow> Num (js_round (x * 10) / 10) | other \<Rightarrow> other)"

definition accepted_hours :: "rat \<Rightarrow> jsnum \<Rightarrow> rat option" where
  "accepted_hours minHours ph =
    (case ph of
       Num x \<Rightarrow> if x < minHours \<or> 168 < x then None else Some x
     | other \<Rightarrow> None)"

text \<open>
  The checks up to the plan's flags (the user is looked up first, and a missing user passes
  the two ban checks, as \<^verbatim>\<open>user && ...\<close> does). \<open>radmin\<close> is \<^verbatim>\<open>isAdmin(req.user)\<close>. The test
  \<^verbatim>\<open>if (!plan)\<close> refuses undefined only: a member of \<^verbatim>\<open>Object.prototype\<close> is truthy, is not
  disabled and is not admin-only.
\<close>

definition subscribe_gate ::
  "string option \<Rightarrow> bool \<Rightarrow> tier_key \<Rightarrow> jsnum \<Rightarrow> db
    \<Rightarrow> subscribe_error + (user option \<times> plan_ref \<times> rat)"
where
  "subscribe_gate ruser radmin tier hours d =
    (case ruser of
       None \<Rightarrow> Inl NotAuthenticated
     | Some rid \<Rightarrow>
        let user = findUser_id d rid in
        if (case user of None \<Rightarrow> False | Some u \<Rightarrow> banned_device d (hwid u))
        then Inl AccountBanned
        else if (case user of None \<Rightarrow> False | Some u \<Rightarrow> 2 \<le> warnings u)
        then Inl AccountBannedWarnings
        else if sales_closed d then Inl SalesClosed
        else if global_paused d then Inl PlansPaused
        else
          (case accepted_hours (getGlobalMinHours d) (parsedHours hours) of
             None \<Rightarrow> Inl (MinimumPurchase (getGlobalMinHours d))
           | Some h \<Rightarrow>
              (case PLANS d tier of
                 None \<Rightarrow> Inl InvalidTier
               | Some p \<Rightarrow>
                  if plan_disabled p then Inl PlanDisabled
                  else if plan_adminOnly p \<and> \<not> radmin then Inl PlanNotAvailable
                  else Inr (user, p, h))))"

text \<open>
  \<^verbatim>\<open>u.subscription_tier == tier\<close> for a stored tier number: equal numbers; against the name of
  a member of \<^verbatim>\<open>Object.prototype\<close> the comparison is with NaN and false. A tier of the kind
  \<open>TOther\<close> has no plan and never gets as far as this comparison.
\<close>

definition same_tier :: "nat \<Rightarrow> tier_key \<Rightarrow> bool" where
  "same_tier stored tier = (case tier of TNum n \<Rightarrow> stored = n | other \<Rightarrow> False)"

text \<open>
  The users counted against the tier's slots: on that tier, not yet expired, and not the
  requesting user.
\<close>

definition activeUsersOnTier :: "rat \<Rightarrow> tier_key \<Rightarrow> string \<Rightarrow> db \<Rightarrow> nat" where
  "activeUsersOnTier now tier rid d =
    length (filter (\<lambda>u. same_tier (subscription_tier u) tier \<and> now < subscription_expires u \<and>
                         user_id u \<noteq> rid) (users d))"

text \<open>\<^verbatim>\<open>plan.slots || 2\<close>.\<close>

definition maxSlots :: "plan_ref \<Rightarrow> int" where
  "maxSlots p = (case p of Own q \<Rightarrow> if slots q = 0 then 2 else slots q | Inherited k \<Rightarrow> 2)"

text \<open>
  The fair conversion: the value of the time left, in hours of the new plan. The old plan is
  looked up under the stored tier number.
\<close>

definition convertedHours :: "rat \<Rightarrow> db \<Rightarrow> user \<Rightarrow> plan_ref \<Rightarrow> subscribe_error + jsnum" where
  "convertedHours now d u p =
    (if now < subscription_expires u \<and> 0 < subscription_tier u
     then
       (case PLANS d (TNum (subscription_tier u)) of
          None \<Rightarrow> Inl TypeError
        | Some oldPlan \<Rightarrow>
           let remainingMs = subscription_expires u - now;
               remainingHours = remainingMs / 3600000;
               remainingValue = js_mul (Num remainingHours) (plan_price oldPlan)
           in Inr (js_div remainingValue (plan_price p)))
     else Inr (Num 0))"

text \<open>The three written values as values of the typed store, when they are.\<close>

definition typed_write :: "jsnum \<Rightarrow> tier_key \<Rightarrow> jsnum \<Rightarrow> (rat \<times> nat \<times> rat) option" where
  "typed_write newBalance tier newExpires =
    (case newBalance of
       Num b \<Rightarrow>
        (case tier of
           TNum t \<Rightarrow> (case newExpires of Num e \<Rightarrow> Some (b, t, e) | other \<Rightarrow> None)
         | other \<Rightarrow> None)
     | other \<Rightarrow> None)"

text \<open>
  The whole handler. With no user object the slot filter raises as soon as one user of the
  store is active on the tier (it reads \<^verbatim>\<open>user.id\<close>), and the balance check raises
  otherwise. The balance check \<^verbatim>\<open>(user.balance || 0) < cost\<close> is false when the cost is NaN.
\<close>

definition subscribe ::
  "rat \<Rightarrow> string option \<Rightarrow> bool \<Rightarrow> tier_key \<Rightarrow> jsnum \<Rightarrow> db \<Rightarrow> subscribe_result"
where
  "subscribe now ruser radmin tier hours d =
    (case subscribe_gate ruser radmin tier hours d of
       Inl e \<Rightarrow> Refused e
     | Inr (user, p, h) \<Rightarrow>
        (case user of
           None \<Rightarrow>
            if filter (\<lambda>u. same_tier (subscription_tier u) tier \<and> now < subscription_expires u)
                 (users d) \<noteq> []
            then Refused TypeError
            else if maxSlots p \<le> 0 then Refused (SlotsFull (plan_name p) 0 (maxSlots p))
            else Refused TypeError
         | Some u \<Rightarrow>
            let n = activeUsersOnTier now tier (user_id u) d in
            if maxSlots p \<le> int n then Refused (SlotsFull (plan_name p) n (maxSlots p))
            else
              let cost = js_mul (Num h) (plan_price p) in
              if js_lt (Num (balance u)) cost
              then Refused (InsufficientBalance cost (balance u))
              else
                (case convertedHours now d u p of
                   Inl e \<Rightarrow> Refused e
                 | Inr c \<Rightarrow>
                    let totalHours = js_add c (Num h);
                        newExpires =
                          js_add (Num now) (js_mul (js_mul totalHours (Num 3600)) (Num 1000));
                        newBalance = js_sub (Num (balance u)) cost;
                        answer = \<lparr>new_balance = newBalance, expires = newExpires,
                                  hours_added = h, converted_hours = c,
                                  total_hours = totalHours\<rparr>
                    in (case typed_write newBalance tier newExpires of
                          None \<Rightarrow> SubscribedUntyped answer
                        | Some (b, t, e) \<Rightarrow>
                           Subscribed
                             (updateUser (user_id u)
                                (\<lambda>x. x\<lparr>balance := b, subscription_tier := t,
                                       subscription_expires := e\<rparr>) d)
                             answer))))"

text \<open>What a request was answered on success, whether or not the store after it is typed.\<close>

definition answer_of :: "subscribe_result \<Rightarrow> subscribe_ok option" where
  "answer_of r =
    (case r of Refused e \<Rightarrow> None | Subscribed d a \<Rightarrow> Some a | SubscribedUntyped a \<Rightarrow> Some a)"

text \<open>\<^verbatim>\<open>POST /api/add-balance\<close>, for a finite amount: the session user's balance grows by it.\<close>

definition add_balance :: "string \<Rightarrow> rat \<Rightarrow> db \<Rightarrow> db" where
  "add_balance rid amount d = updateUser rid (\<lambda>x. x\<lparr>balance := balance x + amount\<rparr>) d"

section \<open>Validating a license key\<close>

datatype ban_reason = HWIDBlocked | TwoWarnings

datatype validate_error =
    NoKeyProvided
  | Banned ban_reason
  | InvalidKey
  | SubscriptionExpired
  | HWIDMismatch

record validate_ok =
  v_tier :: nat
  v_plan :: string
  v_slots :: int

text \<open>
  The fields \<^verbatim>\<open>GET /api/validate\<close> writes on success: the clock reading, the presented
  device with a history entry when the user has none bound, the Roblox name when one is given.
\<close>

definition validate_updates :: "rat \<Rightarrow> string option \<Rightarrow> string option \<Rightarrow> user \<Rightarrow> user \<Rightarrow> user" where
  "validate_updates now hw rbx u x =
    (let x1 = x\<lparr>last_active := now\<rparr>;
         x2 = (case hw of
                 None \<Rightarrow> x1
               | Some h \<Rightarrow>
                  if \<not> truthy (hwid u) \<and> h \<noteq> []
                  then x1\<lparr>hwid := Some h, hwid_history := hwid_history u @ [(h, now, ''set'')]\<rparr>
                  else x1)
     in if truthy rbx then x2\<lparr>roblox_username := rbx\<rparr> else x2)"

definition validate ::
  "rat \<Rightarrow> string option \<Rightarrow> string option \<Rightarrow> string option \<Rightarrow> db
    \<Rightarrow> db \<times> (validate_error + validate_ok)"
where
  "validate now key hw rbx d =
    (case key of
       None \<Rightarrow> (d, Inl NoKeyProvided)
     | Some k \<Rightarrow>
        if k = [] then (d, Inl NoKeyProvided)
        else if banned_device d hw then (d, Inl (Banned HWIDBlocked))
        else
          (case findUser_license_key d k of
             None \<Rightarrow> (d, Inl InvalidKey)
           | Some u \<Rightarrow>
              if 2 \<le> warnings u then (d, Inl (Banned TwoWarnings))
              else if banned_device d (hwid u) then (d, Inl (Banned HWIDBlocked))
              else if \<not> now < subscription_expires u then (d, Inl SubscriptionExpired)
              else if truthy (hwid u) \<and> hwid u \<noteq> hw then (d, Inl HWIDMismatch)
              else
                (if (\<not> truthy (hwid u) \<and> truthy hw) \<or> truthy rbx
                 then updateUser (user_id u) (validate_updates now hw rbx u) d
                 else d,
                 Inr \<lparr>v_tier = subscription_tier u,
                      v_plan = (case PLANS d (TNum (subscription_tier u)) of
                                  Some (Own p) \<Rightarrow> if pname p = [] then ''None'' else pname p
                                | other \<Rightarrow> ''None''),
                      v_slots = (case PLANS d (TNum (subscription_tier u)) of
                                   Some (Own p) \<Rightarrow> if slots p = 0 then 1 else slots p
                                 | other \<Rightarrow> 1)\<rparr>)))"

section \<open>Warnings (admin)\<close>

record warn_ok =
  w_warnings :: nat
  auto_banned :: bool

text \<open>
  \<^verbatim>\<open>POST /api/admin/warn/:userId\<close>: one more warning, an entry in the warnings log, and at two
  warnings the bound device joins \<^verbatim>\<open>db.banned_hwids\<close> unless it is there already. The device
  is read from the user object fetched before the update.
\<close>

definition warn :: "rat \<Rightarrow> string \<Rightarrow> string \<Rightarrow> string option \<Rightarrow> db \<Rightarrow> db \<times> (admin_error + warn_ok)" where
  "warn now admin userId reason d =
    (case findUser_id d userId of
       None \<Rightarrow> (d, Inl UserNotFound)
     | Some u \<Rightarrow>
        let newWarnings = warnings u + 1;
            d1 = updateUser userId (\<lambda>x. x\<lparr>warnings := newWarnings\<rparr>) d;
            d2 = d1\<lparr>warnings_log := warnings_log d1 @
                   [(userId, username u,
                     (case reason of
                        None \<Rightarrow> ''No reason provided''
                      | Some r \<Rightarrow> if r = [] then ''No reason provided'' else r),
                     now, admin)]\<rparr>
        in (case hwid u of
              None \<Rightarrow> (d2, Inr \<lparr>w_warnings = newWarnings, auto_banned = False\<rparr>)
            | Some h \<Rightarrow>
               if 2 \<le> newWarnings \<and> h \<noteq> [] \<and> \<not> isHWIDBanned d2 h
               then (d2\<lparr>banned_hwids := banned_hwids d2 @ [h]\<rparr>,
                     Inr \<lparr>w_warnings = newWarnings, auto_banned = True\<rparr>)
               else (d2, Inr \<lparr>w_warnings = newWarnings, auto_banned = False\<rparr>)))"

section \<open>Pausing\<close>

text \<open>
  \<^verbatim>\<open>POST /api/admin/pause/:userId\<close> toggles a user's pause. Pausing stores the time left,
  not below 0; resuming sets the expiry to the clock reading plus the stored time
  (\<^verbatim>\<open>user.paused_time_remaining || 0\<close>). The answer is the new paused state.
\<close>

definition admin_pause :: "rat \<Rightarrow> string \<Rightarrow> db \<Rightarrow> db \<times> (admin_error + bool)" where
  "admin_pause now userId d =
    (case findUser_id d userId of
       None \<Rightarrow> (d, Inl UserNotFound)
     | Some u \<Rightarrow>
        if \<not> paused u
        then
          let timeRemaining = max 0 (subscription_expires u - now) in
          (updateUser userId
             (\<lambda>x. x\<lparr>paused := True, pause_locked := False,
                    paused_time_remaining := Some timeRemaining, paused_at := Some now\<rparr>) d,
           Inr True)
        else
          let timeRemaining = (case paused_time_remaining u of None \<Rightarrow> 0 | Some r \<Rightarrow> r);
              newExpires = now + timeRemaining
          in (updateUser userId
                (\<lambda>x. x\<lparr>paused := False, pause_locked := False,
                       subscription_expires := newExpires, paused_time_remaining := None,
                       paused_at := None\<rparr>) d,
              Inr False))"

datatype unpause_error = UnpauseNotAuthenticated | UnpauseTypeError | NotPaused | PauseLocked

text \<open>\<^verbatim>\<open>POST /api/unpause\<close>, the user's own request.\<close>

definition unpause :: "rat \<Rightarrow> string option \<Rightarrow> db \<Rightarrow> db \<times> (unpause_error + unit)" where
  "unpause now ruser d =
    (case ruser of
       None \<Rightarrow> (d, Inl UnpauseNotAuthenticated)
     | Some rid \<Rightarrow>
        (case findUser_id d rid of
           None \<Rightarrow> (d, Inl UnpauseTypeError)
         | Some u \<Rightarrow>
            if \<not> paused u then (d, Inl NotPaused)
            else if pause_locked u then (d, Inl PauseLocked)
            else
              let timeRemaining = (case paused_time_remaining u of None \<Rightarrow> 0 | Some r \<Rightarrow> r);
                  newExpires = now + timeRemaining
              in (updateUser rid
                    (\<lambda>x. x\<lparr>paused := False, unpause_requested := False,
                           subscription_expires := newExpires, paused_time_remaining := None,
                           paused_at := None\<rparr>) d,
                  Inr ())))"

text \<open>\<^verbatim>\<open>POST /api/admin/pause-all\<close> flips the global pause.\<close>

definition pause_all :: "db \<Rightarrow> db" where
  "pause_all d = d\<lparr>global_paused := \<not> global_paused d\<rparr>"

text \<open>
  \<^verbatim>\<open>POST /api/admin/lock-all-paused\<close>. Under the global pause it takes every user with an
  active subscription that is not locked, and marks as paused those that are not; otherwise it
  takes the paused users that are not locked. The answer is the number of users taken.
\<close>

definition usersToLock :: "rat \<Rightarrow> db \<Rightarrow> user list" where
  "usersToLock now d =
    (if global_paused d
     then filter (\<lambda>u. 0 < subscription_tier u \<and> now < subscription_expires u \<and>
                       \<not> pause_locked u) (users d)
     else filter (\<lambda>u. paused u \<and> \<not> pause_locked u) (users d))"

definition lock_one :: "db \<Rightarrow> user \<Rightarrow> db" where
  "lock_one d u =
    (if global_paused d \<and> \<not> paused u
     then updateUser (user_id u) (\<lambda>x. x\<lparr>paused := True, pause_locked := True\<rparr>) d
     else updateUser (user_id u) (\<lambda>x. x\<lparr>pause_locked := True\<rparr>) d)"

definition lock_all_paused :: "rat \<Rightarrow> db \<Rightarrow> db \<times> (admin_error + nat)" where
  "lock_all_paused now d =
    (if usersToLock now d = [] then (d, Inl NoPausedUsers)
     else (foldl lock_one d (usersToLock now d), Inr (length (usersToLock now d))))"

section \<open>The expired subscription checker\<close>

text \<open>
  The timer's callback, every 5 minutes: the users whose subscription ran out in the last
  5 minutes lose their Discord roles and their tier. The second component lists the Discord
  ids handed to \<^verbatim>\<open>removeDiscordRoles\<close>, in order. The callback awaits that call for each user;
  the model runs the whole sweep in one step.
\<close>

definition expiredUsers :: "rat \<Rightarrow> db \<Rightarrow> user list" where
  "expiredUsers now d =
    filter (\<lambda>u. 0 < subscription_tier u \<and> 0 < subscription_expires u \<and>
                 subscription_expires u < now \<and>
                 now - 5 * 60 * 1000 < subscription_expires u) (users d)"

definition expiry_tick :: "rat \<Rightarrow> db \<Rightarrow> db \<times> string list" where
  "expiry_tick now d =
    (foldl (\<lambda>acc u. updateUser (user_id u) (\<lambda>x. x\<lparr>subscription_tier := 0\<rparr>) acc) d
       (expiredUsers now d),
     map discord_id (expiredUsers now d))"

section \<open>New users and the empty store\<close>

text \<open>The object the Discord login creates for an identity seen for the first time.\<close>

definition new_user :: "string \<Rightarrow> string \<Rightarrow> string \<Rightarrow> string \<Rightarrow> rat \<Rightarrow> user" where
  "new_user i did nm k now =
    \<lparr>user_id = i, discord_id = did, username = nm, license_key = k, hwid = None,
     roblox_username = None, balance = 0, subscription_tier = 0, subscription_expires = 0,
     warnings = 0, last_active = now, paused = False, pause_locked = False,
     paused_time_remaining = None, paused_at = None, unpause_requested = False,
     hwid_history = []\<rparr>"

text \<open>The store \<^verbatim>\<open>loadDB\<close> starts from when there is no file.\<close>

definition empty_db :: db where
  "empty_db = \<lparr>users = [], banned_hwids = [], warnings_log = [], global_paused = False,
     sales_closed = False, global_min_hours = None, plans = None\<rparr>"

section \<open>Example stores\<close>

text \<open>One subscriber on Bronze whose subscription ends at clock reading 10000000.\<close>

definition ann :: user where
  "ann = (new_user ''u1'' ''d1'' ''ann'' ''ULTRA-AAAA'' 0)
           \<lparr>subscription_tier := 1, subscription_expires := 10000000\<rparr>"

definition db_ann :: db where
  "db_ann = empty_db\<lparr>users := [ann]\<rparr>"

text \<open>
  A Bronze subscriber with 10 hours left at clock reading 1000 and a balance of 10.
\<close>

definition bob :: user where
  "bob = (new_user ''u2'' ''d2'' ''bob'' ''ULTRA-BBBB'' 0)
           \<lparr>balance := 10, subscription_tier := 1, subscription_expires := 36001000\<rparr>"

definition db_bob :: db where
  "db_bob = empty_db\<lparr>users := [bob]\<rparr>"

text \<open>
  Bronze has 2 slots. Two users hold them at clock reading 1000, the first until 5000000 and
  the second, who has a balance of 10, until 9001000. A third user with a balance of 10 has
  no subscription.
\<close>

definition carl :: user where
  "carl = (new_user ''u3'' ''d3'' ''carl'' ''ULTRA-CCCC'' 0)\<lparr>balance := 10\<rparr>"

definition db_full :: db where
  "db_full = empty_db\<lparr>users :=
     [(new_user ''v1'' ''e1'' ''vic'' ''ULTRA-V1V1'' 0)
        \<lparr>subscription_tier := 1, subscription_expires := 5000000\<rparr>,
      (new_user ''v2'' ''e2'' ''val'' ''ULTRA-V2V2'' 0)
        \<lparr>balance := 10, subscription_tier := 1, subscription_expires := 9001000\<rparr>,
      carl]\<rparr>"

text \<open>A user with a balance of 5 and no subscription.\<close>

definition dana :: user where
  "dana = (new_user ''u4'' ''d4'' ''dana'' ''ULTRA-DDDD'' 0)\<lparr>balance := 5\<rparr>"

definition db_dana :: db where
  "db_dana = empty_db\<lparr>users := [dana]\<rparr>"

text \<open>A user just created: no subscription, expiry 0.\<close>

definition eve :: user where
  "eve = new_user ''u5'' ''d5'' ''eve'' ''ULTRA-EEEE'' 0"

definition db_eve :: db where
  "db_eve = empty_db\<lparr>users := [eve]\<rparr>"

text \<open>
  The effective-read rule in the words of the specification (section 4.3), for comparison
  with what the handlers compute: a paused user is active while the frozen time is above 0,
  any other user while the expiry is after the clock reading.
\<close>

definition isActive_spec :: "user \<Rightarrow> rat \<Rightarrow> bool" where
  "isActive_spec u now =
    (if paused u
     then (case paused_time_remaining u of None \<Rightarrow> False | Some r \<Rightarrow> 0 < r)
     else now < subscription_expires u)"

text \<open>
  A Bronze subscriber paused at clock reading 1000 with one hour left; the stored expiry,
  3601000, stays as it was.
\<close>

definition fay :: user where
  "fay = (new_user ''u6'' ''d6'' ''fay'' ''ULTRA-FFFF'' 0)
           \<lparr>subscription_tier := 1, subscription_expires := 3601000, paused := True,
            paused_time_remaining := Some 3600000, paused_at := Some 1000\<rparr>"

definition db_fay :: db where
  "db_fay = empty_db\<lparr>users := [fay]\<rparr>"

text \<open>A Silver subscriber with a bound device and no warning.\<close>

definition hal :: user where
  "hal = (new_user ''u8'' ''d8'' ''hal'' ''ULTRA-HHHH'' 0)
           \<lparr>hwid := Some ''HW-8'', subscription_tier := 2, subscription_expires := 9000000\<rparr>"

definition db_hal :: db where
  "db_hal = empty_db\<lparr>users := [hal]\<rparr>"

text \<open>
  Three subscribers seen at clock reading 10000000: one whose subscription ran out 100
  seconds before, one whose subscription ran out 10 minutes before, one still running.
\<close>

definition ivy :: user where
  "ivy = (new_user ''u9'' ''d9'' ''ivy'' ''ULTRA-IIII'' 0)
           \<lparr>subscription_tier := 1, subscription_expires := 9900000\<rparr>"

definition jo :: user where
  "jo = (new_user ''u10'' ''d10'' ''jo'' ''ULTRA-JJJJ'' 0)
           \<lparr>subscription_tier := 2, subscription_expires := 9400000\<rparr>"

definition kim :: user where
  "kim = (new_user ''u11'' ''d11'' ''kim'' ''ULTRA-KKKK'' 0)
           \<lparr>subscription_tier := 1, subscription_expires := 20000000\<rparr>"

definition db_tick :: db where
  "db_tick = empty_db\<lparr>users := [ivy, jo, kim]\<rparr>"

text \<open>
  The global pause is on, and a Bronze subscriber, neither paused nor locked, has 10 hours
  left at clock reading 1000.
\<close>

definition lea :: user where
  "lea = (new_user ''u12'' ''d12'' ''lea'' ''ULTRA-LLLL'' 0)
           \<lparr>subscription_tier := 1, subscription_expires := 36001000\<rparr>"

definition db_lea :: db where
  "db_lea = empty_db\<lparr>users := [lea], global_paused := True\<rparr>"

text \<open>
  The invariant of the data model: the frozen time is stored exactly while the user is
  paused.
\<close>

definition frozen_iff_paused :: "user \<Rightarrow> bool" where
  "frozen_iff_paused u = ((paused_time_remaining u \<noteq> None) = paused u)"

text \<open>
  A history from an empty store: a user is created and credited 10 (\<open>db_mia_paid\<close>), and
  buys 2 hours of Bronze at clock reading 1000, which writes a balance of 8, tier 1 and the
  expiry 7201000 (\<open>db_mia_subscribed\<close>); the global pause is switched on, and at clock
  reading 2000 all paused users are locked (\<open>db_mia_locked\<close>).
\<close>

definition mia :: user where
  "mia = new_user ''u13'' ''d13'' ''mia'' ''ULTRA-MMMM'' 500"

definition db_mia_paid :: db where
  "db_mia_paid = add_balance ''u13'' 10 (createUser mia empty_db)"

definition db_mia_subscribed :: db where
  "db_mia_subscribed =
     updateUser ''u13''
       (\<lambda>x. x\<lparr>balance := 8, subscription_tier := 1, subscription_expires := 7201000\<rparr>)
       db_mia_paid"

definition db_mia_locked :: db where
  "db_mia_locked = fst (lock_all_paused 2000 (pause_all db_mia_subscribed))"

section \<open>Facts about the store\<close>

lemma find_update_first_same:
  assumes "\<And>u. user_id (f u) = user_id u"
  shows "find (\<lambda>u. user_id u = i) (update_first i f us)
         = map_option f (find (\<lambda>u. user_id u = i) us)"
  using assms by (induction us) auto

lemma find_update_first_other:
  assumes "\<And>u. user_id (f u) = user_id u" and "j \<noteq> i"
  shows "find (\<lambda>u. user_id u = j) (update_first i f us) = find (\<lambda>u. user_id u = j) us"
  using assms by (induction us) auto

lemma findUser_id_updateUser_same:
  assumes "\<And>u. user_id (f u) = user_id u"
  shows "findUser_id (updateUser i f d) i = map_option f (findUser_id d i)"
  using assms by (simp add: findUser_id_def updateUser_def find_update_first_same)

lemma findUser_id_updateUser_other:
  assumes "\<And>u. user_id (f u) = user_id u" and "j \<noteq> i"
  shows "findUser_id (updateUser i f d) j = findUser_id d j"
  using assms by (simp add: findUser_id_def updateUser_def find_update_first_other)

lemma floor_rat_divide_numeral:
  "\<lfloor>numeral a / (numeral b :: rat)\<rfloor> = numeral a div numeral b"
  using floor_divide_of_int_eq[of "numeral a" "numeral b", where ?'a = rat] by simp

lemma findUser_id_user_id: "findUser_id d i = Some u \<Longrightarrow> user_id u = i"
  by (auto simp: findUser_id_def find_Some_iff)

text \<open>The definitions a request to subscribe is evaluated with on an example store.\<close>

lemmas sub_defs =
  subscribe_def subscribe_gate_def findUser_id_def banned_device_def accepted_hours_def
  parsedHours_def js_round_def getGlobalMinHours_def PLANS_def getPlans_def DEFAULT_PLANS_def
  activeUsersOnTier_def same_tier_def maxSlots_def convertedHours_def typed_write_def
  plan_price_def plan_name_def plan_disabled_def plan_adminOnly_def proto_name_def
  js_mul_def js_div_def js_add_def js_sub_def js_neg_def js_lt_def js_inf_def js_negative_def
  Let_def floor_rat_divide_numeral updateUser_def empty_db_def new_user_def

text \<open>
  What the checks up to the plan's flags have established when they let a request through:
  the hours are a finite Number, and the purchased hours are that Number rounded to one
  decimal, \<^verbatim>\<open>Math.round(x * 10) / 10\<close>.
\<close>

lemma subscribe_gate_cases:
  assumes "subscribe_gate (Some rid) radmin tier hours d = Inr (uo, p, h)"
  obtains x where "uo = findUser_id d rid" "PLANS d tier = Some p" "hours = Num x"
    "h = of_int \<lfloor>x * 10 + 1 / 2\<rfloor> / 10"
  using assms
  by (auto simp: subscribe_gate_def Let_def accepted_hours_def parsedHours_def js_round_def
      split: option.splits if_splits jsnum.splits)

text \<open>
  What a request for a tier number that was answered with success went through, and what it
  wrote: the tier has a plan in the catalogue; fewer users than the plan's slots are on the
  tier with an expiry after the clock reading, the requesting user not counted; the balance
  covers the purchased hours at the plan's price.
\<close>

lemma subscribe_catalogue_cases:
  assumes ok: "answer_of (subscribe now (Some rid) radmin (TNum t) hours d) = Some r"
      and user: "findUser_id d rid = Some u"
  obtains p x c where
      "map_of (getPlans d) t = Some p" "hours = Num x"
      "hours_added r = of_int \<lfloor>x * 10 + 1 / 2\<rfloor> / 10"
      "subscribe_gate (Some rid) radmin (TNum t) hours d = Inr (Some u, Own p, hours_added r)"
      "int (length (filter (\<lambda>v. subscription_tier v = t \<and> now < subscription_expires v \<and>
                                 user_id v \<noteq> rid) (users d)))
         < (if slots p = 0 then 2 else slots p)"
      "hours_added r * price p \<le> balance u"
      "convertedHours now d u (Own p) = Inr c"
      "new_balance r = Num (balance u - hours_added r * price p)"
      "converted_hours r = c"
      "total_hours r = js_add c (Num (hours_added r))"
      "expires r = js_add (Num now) (js_mul (js_mul (total_hours r) (Num 3600)) (Num 1000))"
      "subscribe now (Some rid) radmin (TNum t) hours d =
         (case expires r of
            Num e \<Rightarrow>
             Subscribed
               (updateUser rid
                  (\<lambda>x. x\<lparr>balance := balance u - hours_added r * price p,
                         subscription_tier := t, subscription_expires := e\<rparr>) d) r
          | other \<Rightarrow> SubscribedUntyped r)"
proof (cases "subscribe_gate (Some rid) radmin (TNum t) hours d")
  case (Inl e)
  with ok show ?thesis by (simp add: subscribe_def answer_of_def)
next
  case (Inr g)
  obtain uo q h where g: "g = (uo, q, h)" by (cases g)
  from Inr[unfolded g] obtain x where uo: "uo = findUser_id d rid"
    and q: "PLANS d (TNum t) = Some q" and x: "hours = Num x"
    and h: "h = of_int \<lfloor>x * 10 + 1 / 2\<rfloor> / 10"
    by (rule subscribe_gate_cases)
  from q obtain p where p: "map_of (getPlans d) t = Some p" and qp: "q = Own p"
    by (auto simp: PLANS_def)
  have id: "user_id u = rid" using user by (rule findUser_id_user_id)
  have gate: "subscribe_gate (Some rid) radmin (TNum t) hours d = Inr (Some u, Own p, h)"
    using Inr g uo user qp by simp
  have cnt: "activeUsersOnTier now (TNum t) rid d =
      length (filter (\<lambda>v. subscription_tier v = t \<and> now < subscription_expires v \<and>
                          user_id v \<noteq> rid) (users d))"
    by (simp add: activeUsersOnTier_def same_tier_def)
  from ok gate obtain c where
    slots: "int (activeUsersOnTier now (TNum t) rid d) < (if slots p = 0 then 2 else slots p)"
    and bal: "h * price p \<le> balance u"
    and c: "convertedHours now d u (Own p) = Inr c"
    and r: "r = \<lparr>new_balance = Num (balance u - h * price p),
                 expires = js_add (Num now) (js_mul (js_mul (js_add c (Num h)) (Num 3600)) (Num 1000)),
                 hours_added = h, converted_hours = c, total_hours = js_add c (Num h)\<rparr>"
    by (auto simp: subscribe_def answer_of_def id Let_def maxSlots_def plan_price_def js_mul_def
        js_lt_def js_sub_def js_add_def js_neg_def
        split: if_splits sum.splits option.splits prod.splits)
  have res: "subscribe now (Some rid) radmin (TNum t) hours d =
         (case expires r of
            Num e \<Rightarrow>
             Subscribed
               (updateUser rid
                  (\<lambda>x. x\<lparr>balance := balance u - hours_added r * price p,
                         subscription_tier := t, subscription_expires := e\<rparr>) d) r
          | other \<Rightarrow> SubscribedUntyped r)"
    using gate slots bal c
    by (auto simp: subscribe_def id Let_def maxSlots_def plan_price_def js_mul_def r
        js_lt_def js_sub_def js_add_def js_neg_def typed_write_def
        split: jsnum.splits)
  have hr: "hours_added r = h" by (simp add: r)
  show ?thesis
  proof (rule that[OF p x _ _ _ _ c _ _ _ _ res])
    show "hours_added r = of_int \<lfloor>x * 10 + 1 / 2\<rfloor> / 10"
      by (simp only: hr h)
    show "subscribe_gate (Some rid) radmin (TNum t) hours d = Inr (Some u, Own p, hours_added r)"
      unfolding hr by (rule gate)
    show "int (length (filter (\<lambda>v. subscription_tier v = t \<and> now < subscription_expires v \<and>
                                 user_id v \<noteq> rid) (users d)))
         < (if slots p = 0 then 2 else slots p)"
      using slots unfolding cnt .
    show "hours_added r * price p \<le> balance u"
      unfolding hr by (rule bal)
    show "new_balance r = Num (balance u - hours_added r * price p)"
      by (simp add: r)
    show "converted_hours r = c" by (simp add: r)
    show "total_hours r = js_add c (Num (hours_added r))" by (simp add: r)
    show "expires r = js_add (Num now) (js_mul (js_mul (total_hours r) (Num 3600)) (Num 1000))"
      by (simp add: r)
  qed
qed

text \<open>
  The fair conversion on the tiers of the catalogue. A request for a tier number that is
  answered with success has converted the time left of a running subscription (expiry after
  the clock reading, tier above 0) by the two prices, and nothing otherwise; the total is the
  converted hours plus the purchased hours, and the new expiry is the clock reading plus the
  total in milliseconds. When the new plan's price is not 0 all of these are finite, and the
  tier and the expiry are stored. (A stored price of 0 makes the quotient an infinity or NaN;
  \<^verbatim>\<open>POST /api/admin/plans\<close> cannot store one.)
\<close>

lemma subscribe_conversion_catalogue:
  assumes ok: "answer_of (subscribe now (Some rid) radmin (TNum t) hours d) = Some r"
      and user: "findUser_id d rid = Some u"
  shows "\<exists>p. map_of (getPlans d) t = Some p \<and>
      (if now < subscription_expires u \<and> 0 < subscription_tier u
       then \<exists>oldPlan. map_of (getPlans d) (subscription_tier u) = Some oldPlan \<and>
              converted_hours r =
                js_div (Num ((subscription_expires u - now) / 3600000 * price oldPlan))
                  (Num (price p))
       else converted_hours r = Num 0) \<and>
      total_hours r = js_add (converted_hours r) (Num (hours_added r)) \<and>
      expires r = js_add (Num now) (js_mul (js_mul (total_hours r) (Num 3600)) (Num 1000)) \<and>
      (price p \<noteq> 0 \<longrightarrow>
         (\<exists>c. (if now < subscription_expires u \<and> 0 < subscription_tier u
               then \<exists>oldPlan. map_of (getPlans d) (subscription_tier u) = Some oldPlan \<and>
                      c = (subscription_expires u - now) / 3600000 * price oldPlan / price p
               else c = 0) \<and>
              converted_hours r = Num c \<and>
              total_hours r = Num (c + hours_added r) \<and>
              expires r = Num (now + (c + hours_added r) * 3600000) \<and>
              (\<exists>d' u'. subscribe now (Some rid) radmin (TNum t) hours d = Subscribed d' r \<and>
                      findUser_id d' rid = Some u' \<and> subscription_tier u' = t \<and>
                      subscription_expires u' = now + (c + hours_added r) * 3600000)))"
proof -
  from ok user obtain p x c where
    p: "map_of (getPlans d) t = Some p" and
    c: "convertedHours now d u (Own p) = Inr c" and
    rc: "converted_hours r = c" and
    rt: "total_hours r = js_add c (Num (hours_added r))" and
    re: "expires r = js_add (Num now) (js_mul (js_mul (total_hours r) (Num 3600)) (Num 1000))" and
    res: "subscribe now (Some rid) radmin (TNum t) hours d =
         (case expires r of
            Num e \<Rightarrow>
             Subscribed
               (updateUser rid
                  (\<lambda>x. x\<lparr>balance := balance u - hours_added r * price p,
                         subscription_tier := t, subscription_expires := e\<rparr>) d) r
          | other \<Rightarrow> SubscribedUntyped r)"
    by (rule subscribe_catalogue_cases)
  have conv: "if now < subscription_expires u \<and> 0 < subscription_tier u
       then \<exists>oldPlan. map_of (getPlans d) (subscription_tier u) = Some oldPlan \<and>
              converted_hours r =
                js_div (Num ((subscription_expires u - now) / 3600000 * price oldPlan))
                  (Num (price p))
       else converted_hours r = Num 0"
    unfolding rc using c
    by (auto simp: convertedHours_def Let_def PLANS_def plan_price_def js_mul_def
        split: option.splits if_splits)
  have tot: "total_hours r = js_add (converted_hours r) (Num (hours_added r))"
    using rt rc by simp
  have fin: "\<exists>c. (if now < subscription_expires u \<and> 0 < subscription_tier u
               then \<exists>oldPlan. map_of (getPlans d) (subscription_tier u) = Some oldPlan \<and>
                      c = (subscription_expires u - now) / 3600000 * price oldPlan / price p
               else c = 0) \<and>
              converted_hours r = Num c \<and>
              total_hours r = Num (c + hours_added r) \<and>
              expires r = Num (now + (c + hours_added r) * 3600000) \<and>
              (\<exists>d' u'. subscribe now (Some rid) radmin (TNum t) hours d = Subscribed d' r \<and>
                      findUser_id d' rid = Some u' \<and> subscription_tier u' = t \<and>
                      subscription_expires u' = now + (c + hours_added r) * 3600000)"
    if nz: "price p \<noteq> 0"
  proof -
    from conv nz obtain c' where c': "converted_hours r = Num c'"
      and f: "if now < subscription_expires u \<and> 0 < subscription_tier u
               then \<exists>oldPlan. map_of (getPlans d) (subscription_tier u) = Some oldPlan \<and>
                      c' = (subscription_expires u - now) / 3600000 * price oldPlan / price p
               else c' = 0"
      by (auto simp: js_div_def split: if_splits)
    have t': "total_hours r = Num (c' + hours_added r)"
      using tot c' by (simp add: js_add_def)
    have e': "expires r = Num (now + (c' + hours_added r) * 3600000)"
      using re t' by (simp add: js_add_def js_mul_def)
    have "subscribe now (Some rid) radmin (TNum t) hours d =
        Subscribed (updateUser rid
                  (\<lambda>x. x\<lparr>balance := balance u - hours_added r * price p,
                         subscription_tier := t,
                         subscription_expires := now + (c' + hours_added r) * 3600000\<rparr>) d) r"
      using res e' by simp
    moreover have "\<exists>u'. findUser_id (updateUser rid
                  (\<lambda>x. x\<lparr>balance := balance u - hours_added r * price p,
                         subscription_tier := t,
                         subscription_expires := now + (c' + hours_added r) * 3600000\<rparr>) d) rid
              = Some u' \<and> subscription_tier u' = t \<and>
                subscription_expires u' = now + (c' + hours_added r) * 3600000"
      using user by (simp add: findUser_id_updateUser_same)
    ultimately show ?thesis using f c' t' e' by blast
  qed
  from p conv tot re fin show ?thesis by blast
qed

text \<open>
  Slot admission on the tiers of the catalogue. The count is written out: the users whose
  stored tier is the requested one and whose expiry is after the clock reading, the
  requesting user left out. A success has the count below \<^verbatim>\<open>plan.slots || 2\<close>, and a request
  that passed the earlier checks with the count at or above it is refused with \<open>SlotsFull\<close>,
  which carries the plan's name, the count and the slots.
\<close>

lemma subscribe_slots_catalogue:
  assumes user: "findUser_id d rid = Some u"
      and plan: "map_of (getPlans d) t = Some p"
  shows "(\<forall>r. answer_of (subscribe now (Some rid) radmin (TNum t) hours d) = Some r \<longrightarrow>
            int (length (filter (\<lambda>v. subscription_tier v = t \<and> now < subscription_expires v \<and>
                                      user_id v \<noteq> rid) (users d)))
              < (if slots p = 0 then 2 else slots p)) \<and>
         (\<forall>h. subscribe_gate (Some rid) radmin (TNum t) hours d = Inr (Some u, Own p, h) \<and>
              (if slots p = 0 then 2 else slots p)
                \<le> int (length (filter (\<lambda>v. subscription_tier v = t \<and>
                                            now < subscription_expires v \<and>
                                            user_id v \<noteq> rid) (users d))) \<longrightarrow>
              subscribe now (Some rid) radmin (TNum t) hours d =
                Refused (SlotsFull (Some (pname p))
                  (length (filter (\<lambda>v. subscription_tier v = t \<and> now < subscription_expires v \<and>
                                       user_id v \<noteq> rid) (users d)))
                  (if slots p = 0 then 2 else slots p)))"
proof -
  have id: "user_id u = rid" using user by (rule findUser_id_user_id)
  have cnt: "activeUsersOnTier now (TNum t) rid d =
      length (filter (\<lambda>v. subscription_tier v = t \<and> now < subscription_expires v \<and>
                          user_id v \<noteq> rid) (users d))"
    by (simp add: activeUsersOnTier_def same_tier_def)
  have a: "int (length (filter (\<lambda>v. subscription_tier v = t \<and> now < subscription_expires v \<and>
                                      user_id v \<noteq> rid) (users d)))
              < (if slots p = 0 then 2 else slots p)"
    if "answer_of (subscribe now (Some rid) radmin (TNum t) hours d) = Some r" for r
  proof -
    from that user obtain p' where p': "map_of (getPlans d) t = Some p'" and
      lt: "int (length (filter (\<lambda>v. subscription_tier v = t \<and> now < subscription_expires v \<and>
                                 user_id v \<noteq> rid) (users d)))
         < (if slots p' = 0 then 2 else slots p')"
      by (rule subscribe_catalogue_cases)
    from p' plan have "p' = p" by simp
    with lt show ?thesis by (simp only:)
  qed
  have b: "subscribe now (Some rid) radmin (TNum t) hours d =
                Refused (SlotsFull (Some (pname p))
                  (length (filter (\<lambda>v. subscription_tier v = t \<and> now < subscription_expires v \<and>
                                       user_id v \<noteq> rid) (users d)))
                  (if slots p = 0 then 2 else slots p))"
    if "subscribe_gate (Some rid) radmin (TNum t) hours d = Inr (Some u, Own p, h)"
       "(if slots p = 0 then 2 else slots p)
                \<le> int (length (filter (\<lambda>v. subscription_tier v = t \<and>
                                            now < subscription_expires v \<and>
                                            user_id v \<noteq> rid) (users d)))" for h
    using that
    by (simp add: subscribe_def id Let_def cnt maxSlots_def plan_name_def)
  from a b show ?thesis by blast
qed

text \<open>
  The cost on the tiers of the catalogue. The purchased hours are written out: the request's
  hours times 10, rounded to the nearest integer, over 10. A success takes exactly the
  purchased hours times the plan's price from the balance, in the answer and in the store;
  a request that passed the checks up to the slots with a balance below the cost is refused
  with \<open>InsufficientBalance\<close>, which carries the cost and the balance; and whenever the
  balance is below the cost the request is refused (a refusal carries no store: the store is
  as it was).
\<close>

lemma subscribe_balance_catalogue:
  assumes user: "findUser_id d rid = Some u"
  shows "(\<forall>r. answer_of (subscribe now (Some rid) radmin (TNum t) hours d) = Some r \<longrightarrow>
            (\<exists>p x. map_of (getPlans d) t = Some p \<and> hours = Num x \<and>
                 hours_added r = of_int \<lfloor>x * 10 + 1 / 2\<rfloor> / 10 \<and>
                 new_balance r = Num (balance u - hours_added r * price p) \<and>
                 (\<forall>d'. subscribe now (Some rid) radmin (TNum t) hours d = Subscribed d' r \<longrightarrow>
                    (\<exists>u'. findUser_id d' rid = Some u' \<and>
                          balance u' = balance u - hours_added r * price p)))) \<and>
         (\<forall>p h. subscribe_gate (Some rid) radmin (TNum t) hours d = Inr (Some u, Own p, h) \<and>
                int (length (filter (\<lambda>v. subscription_tier v = t \<and>
                                          now < subscription_expires v \<and>
                                          user_id v \<noteq> rid) (users d)))
                  < (if slots p = 0 then 2 else slots p) \<and>
                balance u < h * price p \<longrightarrow>
                subscribe now (Some rid) radmin (TNum t) hours d =
                  Refused (InsufficientBalance (Num (h * price p)) (balance u))) \<and>
         (\<forall>p x. map_of (getPlans d) t = Some p \<and> hours = Num x \<and>
                balance u < of_int \<lfloor>x * 10 + 1 / 2\<rfloor> / 10 * price p \<longrightarrow>
                (\<exists>e. subscribe now (Some rid) radmin (TNum t) hours d = Refused e))"
proof -
  have id: "user_id u = rid" using user by (rule findUser_id_user_id)
  have cnt: "activeUsersOnTier now (TNum t) rid d =
      length (filter (\<lambda>v. subscription_tier v = t \<and> now < subscription_expires v \<and>
                          user_id v \<noteq> rid) (users d))"
    by (simp add: activeUsersOnTier_def same_tier_def)
  have a: "\<exists>p x. map_of (getPlans d) t = Some p \<and> hours = Num x \<and>
                 hours_added r = of_int \<lfloor>x * 10 + 1 / 2\<rfloor> / 10 \<and>
                 new_balance r = Num (balance u - hours_added r * price p) \<and>
                 (\<forall>d'. subscribe now (Some rid) radmin (TNum t) hours d = Subscribed d' r \<longrightarrow>
                    (\<exists>u'. findUser_id d' rid = Some u' \<and>
                          balance u' = balance u - hours_added r * price p))"
    if ok: "answer_of (subscribe now (Some rid) radmin (TNum t) hours d) = Some r" for r
  proof -
    from ok user obtain p x where
      p: "map_of (getPlans d) t = Some p" and x: "hours = Num x" and
      h: "hours_added r = of_int \<lfloor>x * 10 + 1 / 2\<rfloor> / 10" and
      nb: "new_balance r = Num (balance u - hours_added r * price p)" and
      res: "subscribe now (Some rid) radmin (TNum t) hours d =
         (case expires r of
            Num e \<Rightarrow>
             Subscribed
               (updateUser rid
                  (\<lambda>x. x\<lparr>balance := balance u - hours_added r * price p,
                         subscription_tier := t, subscription_expires := e\<rparr>) d) r
          | other \<Rightarrow> SubscribedUntyped r)"
      by (rule subscribe_catalogue_cases)
    have "\<exists>u'. findUser_id d' rid = Some u' \<and>
                          balance u' = balance u - hours_added r * price p"
      if "subscribe now (Some rid) radmin (TNum t) hours d = Subscribed d' r" for d'
      using that res user
      by (auto simp: findUser_id_updateUser_same split: jsnum.splits)
    with p x h nb show ?thesis by blast
  qed
  have b: "subscribe now (Some rid) radmin (TNum t) hours d =
                  Refused (InsufficientBalance (Num (h * price p)) (balance u))"
    if "subscribe_gate (Some rid) radmin (TNum t) hours d = Inr (Some u, Own p, h)"
       "int (length (filter (\<lambda>v. subscription_tier v = t \<and>
                                          now < subscription_expires v \<and>
                                          user_id v \<noteq> rid) (users d)))
                  < (if slots p = 0 then 2 else slots p)"
       "balance u < h * price p" for p h
    using that
    by (simp add: subscribe_def id Let_def cnt maxSlots_def plan_price_def js_mul_def js_lt_def)
  have c: "\<exists>e. subscribe now (Some rid) radmin (TNum t) hours d = Refused e"
    if p: "map_of (getPlans d) t = Some p" and x: "hours = Num x"
       and low: "balance u < of_int \<lfloor>x * 10 + 1 / 2\<rfloor> / 10 * price p" for p x
  proof (cases "subscribe_gate (Some rid) radmin (TNum t) hours d")
    case (Inl e)
    then show ?thesis by (simp add: subscribe_def)
  next
    case (Inr g)
    obtain uo q h where g: "g = (uo, q, h)" by (cases g)
    from Inr[unfolded g] obtain x' where "uo = findUser_id d rid"
      "PLANS d (TNum t) = Some q" "hours = Num x'"
      "h = of_int \<lfloor>x' * 10 + 1 / 2\<rfloor> / 10"
      by (rule subscribe_gate_cases)
    with user p x have "uo = Some u" "q = Own p" "h = of_int \<lfloor>x * 10 + 1 / 2\<rfloor> / 10"
      by (simp_all add: PLANS_def)
    with Inr g low show ?thesis
      by (simp add: subscribe_def Let_def plan_price_def js_mul_def js_lt_def)
  qed
  from a b c show ?thesis by blast
qed

lemma findUser_id_admin_pause:
  assumes "findUser_id d rid = Some u" and "\<not> paused u"
  shows "findUser_id (fst (admin_pause now rid d)) rid =
     Some (u\<lparr>paused := True, pause_locked := False,
             paused_time_remaining := Some (max 0 (subscription_expires u - now)),
             paused_at := Some now\<rparr>)"
  using assms by (simp add: admin_pause_def Let_def findUser_id_updateUser_same)

lemma unpause_permitted:
  assumes "findUser_id d rid = Some v"
  shows "(snd (unpause t (Some rid) d) = Inr ()) = (paused v \<and> \<not> pause_locked v)"
  using assms by (simp add: unpause_def Let_def)

lemma findUser_id_unpause:
  assumes "findUser_id d rid = Some v" and "paused v" and "\<not> pause_locked v"
  shows "findUser_id (fst (unpause t (Some rid) d)) rid =
     Some (v\<lparr>paused := False, unpause_requested := False,
             subscription_expires :=
               t + (case paused_time_remaining v of None \<Rightarrow> 0 | Some r \<Rightarrow> r),
             paused_time_remaining := None, paused_at := None\<rparr>)"
  using assms by (simp add: unpause_def Let_def findUser_id_updateUser_same)

lemma findUser_id_validate_updates:
  assumes "findUser_id d (user_id u) = Some u"
  shows "findUser_id (updateUser (user_id u) (validate_updates now hw rbx u) d) (user_id u)
         = Some (validate_updates now hw rbx u u)"
proof -
  have "\<And>x. user_id (validate_updates now hw rbx u x) = user_id x"
    by (simp add: validate_updates_def Let_def split: option.splits)
  then show ?thesis using assms by (simp add: findUser_id_updateUser_same)
qed

lemma validate_valid:
  assumes "key = Some k" "k \<noteq> []" "\<not> banned_device d hw" "findUser_license_key d k = Some u"
    "warnings u < 2" "\<not> banned_device d (hwid u)" "now < subscription_expires u"
    "\<not> (truthy (hwid u) \<and> hwid u \<noteq> hw)"
  shows "fst (validate now key hw rbx d) =
           (if (\<not> truthy (hwid u) \<and> truthy hw) \<or> truthy rbx
            then updateUser (user_id u) (validate_updates now hw rbx u) d else d)"
    and "\<exists>ok. snd (validate now key hw rbx d) = Inr ok \<and> v_tier ok = subscription_tier u"
  using assms by (auto simp: validate_def)

lemma validate_updates_hwid:
  "hwid (validate_updates now hw rbx u u) =
     (case hw of None \<Rightarrow> hwid u
      | Some h \<Rightarrow> if \<not> truthy (hwid u) \<and> h \<noteq> [] then Some h else hwid u)"
  "hwid_history (validate_updates now hw rbx u u) =
     (case hw of None \<Rightarrow> hwid_history u
      | Some h \<Rightarrow> if \<not> truthy (hwid u) \<and> h \<noteq> [] then hwid_history u @ [(h, now, ''set'')]
                  else hwid_history u)"
  by (simp_all add: validate_updates_def Let_def split: option.splits)

lemma validate_keeps_binding:
  assumes k: "key = Some k" "k \<noteq> []" "\<not> banned_device d hw" "findUser_license_key d k = Some u"
    "warnings u < 2" "\<not> banned_device d (hwid u)" "now < subscription_expires u"
    "\<not> (truthy (hwid u) \<and> hwid u \<noteq> hw)"
    and b: "truthy (hwid u) \<or> \<not> truthy hw" and first: "findUser_id d (user_id u) = Some u"
  shows "\<exists>u'. findUser_id (fst (validate now key hw rbx d)) (user_id u) = Some u' \<and>
               hwid u' = hwid u \<and> hwid_history u' = hwid_history u"
  using b first
  by (auto simp: validate_valid(1)[OF k] findUser_id_validate_updates validate_updates_hwid
      truthy_def split: option.splits)

lemma validate_binds:
  assumes k: "key = Some k" "k \<noteq> []" "\<not> banned_device d hw" "findUser_license_key d k = Some u"
    "warnings u < 2" "\<not> banned_device d (hwid u)" "now < subscription_expires u"
    "\<not> (truthy (hwid u) \<and> hwid u \<noteq> hw)"
    and b: "\<not> truthy (hwid u)" "hw = Some h" "h \<noteq> []"
    and first: "findUser_id d (user_id u) = Some u"
  shows "\<exists>u'. findUser_id (fst (validate now key hw rbx d)) (user_id u) = Some u' \<and>
               hwid u' = Some h \<and> hwid_history u' = hwid_history u @ [(h, now, ''set'')]"
proof -
  from b have "(\<not> truthy (hwid u) \<and> truthy hw) \<or> truthy rbx"
    by (simp add: truthy_def)
  with validate_valid(1)[OF k, of rbx] have "fst (validate now key hw rbx d) =
      updateUser (user_id u) (validate_updates now hw rbx u) d"
    by simp
  with first have "findUser_id (fst (validate now key hw rbx d)) (user_id u) =
      Some (validate_updates now hw rbx u u)"
    by (simp add: findUser_id_validate_updates)
  moreover have "hwid (validate_updates now hw rbx u u) = Some h"
    "hwid_history (validate_updates now hw rbx u u) = hwid_history u @ [(h, now, ''set'')]"
    using b by (simp_all add: validate_updates_hwid)
  ultimately show ?thesis by blast
qed

lemma warn_found:
  assumes "findUser_id d uid = Some u" and "hwid u = Some h" and "h \<noteq> []"
  shows "findUser_id (fst (warn t a uid r d)) uid = Some (u\<lparr>warnings := warnings u + 1\<rparr>)"
    and "banned_hwids (fst (warn t a uid r d)) =
           (if 2 \<le> warnings u + 1 \<and> h \<notin> set (banned_hwids d)
            then banned_hwids d @ [h] else banned_hwids d)"
  using assms
  by (auto simp: warn_def Let_def isHWIDBanned_def findUser_id_def updateUser_def
      find_update_first_same)

lemma update_first_distinct:
  assumes "distinct (map user_id us)"
  shows "update_first i f us = map (\<lambda>u. if user_id u = i then f u else u) us"
  using assms
proof (induction us)
  case Nil
  then show ?case by simp
next
  case (Cons u us)
  show ?case
  proof (cases "user_id u = i")
    case True
    with Cons.prems have "\<forall>v \<in> set us. user_id v \<noteq> i" by (fastforce simp: image_iff)
    then have "map (\<lambda>u. if user_id u = i then f u else u) us = us"
      by (induction us) auto
    with True show ?thesis by simp
  next
    case False
    with Cons show ?thesis by simp
  qed
qed

lemma users_foldl_tier0:
  assumes "distinct (map user_id (users d))"
  shows "users (foldl (\<lambda>acc u. updateUser (user_id u) (\<lambda>x. x\<lparr>subscription_tier := 0\<rparr>) acc) d xs)
         = map (\<lambda>u. if user_id u \<in> user_id ` set xs then u\<lparr>subscription_tier := 0\<rparr> else u)
             (users d)"
proof (induction xs rule: rev_induct)
  case Nil
  show ?case by simp
next
  case (snoc x xs)
  let ?m = "map (\<lambda>u. if user_id u \<in> user_id ` set xs then u\<lparr>subscription_tier := 0\<rparr> else u)
             (users d)"
  have "user_id \<circ> (\<lambda>u. if user_id u \<in> user_id ` set xs then u\<lparr>subscription_tier := 0\<rparr> else u)
          = user_id"
    by (auto simp: fun_eq_iff)
  then have ids: "map user_id ?m = map user_id (users d)"
    by simp
  have "distinct (map user_id ?m)" unfolding ids using assms .
  then have "update_first (user_id x) (\<lambda>x. x\<lparr>subscription_tier := 0\<rparr>) ?m =
       map (\<lambda>u. if user_id u = user_id x then u\<lparr>subscription_tier := 0\<rparr> else u) ?m"
    by (rule update_first_distinct)
  then show ?case
    using snoc by (auto simp: updateUser_def)
qed

lemma users_expiry_tick:
  assumes "distinct (map user_id (users d))"
  shows "users (fst (expiry_tick now d)) =
     map (\<lambda>u. if u \<in> set (expiredUsers now d) then u\<lparr>subscription_tier := 0\<rparr> else u) (users d)"
proof -
  have inj: "inj_on user_id (set (users d))"
    using assms by (simp add: distinct_map)
  have sub: "set (expiredUsers now d) \<subseteq> set (users d)"
    by (auto simp: expiredUsers_def)
  have "(user_id u \<in> user_id ` set (expiredUsers now d)) = (u \<in> set (expiredUsers now d))"
    if "u \<in> set (users d)" for u
    using that inj sub by (auto dest: inj_onD)
  then have "map (\<lambda>u. if user_id u \<in> user_id ` set (expiredUsers now d)
                      then u\<lparr>subscription_tier := 0\<rparr> else u) (users d) =
        map (\<lambda>u. if u \<in> set (expiredUsers now d) then u\<lparr>subscription_tier := 0\<rparr> else u) (users d)"
    by (intro map_cong) simp_all
  then show ?thesis
    using users_foldl_tier0[OF assms, of "expiredUsers now d"] by (simp add: expiry_tick_def)
qed

lemma expiry_tick_ids:
  assumes "distinct (map user_id (users d))"
  shows "map user_id (users (fst (expiry_tick t d))) = map user_id (users d)"
  by (simp add: users_expiry_tick[OF assms] comp_def if_distrib cong: if_cong)

lemma expiry_tick_keeps_tier0:
  assumes "distinct (map user_id (users d))"
      and "\<forall>v \<in> set (users d). user_id v = i \<longrightarrow> subscription_tier v = 0"
  shows "\<forall>v \<in> set (users (fst (expiry_tick t d))). user_id v = i \<longrightarrow> subscription_tier v = 0"
  using assms(2) by (auto simp: users_expiry_tick[OF assms(1)])

lemma ticks_keep_tier0:
  assumes "distinct (map user_id (users d))"
      and "\<forall>v \<in> set (users d). user_id v = i \<longrightarrow> subscription_tier v = 0"
  shows "distinct (map user_id (users (foldl (\<lambda>acc t. fst (expiry_tick t acc)) d ts))) \<and>
         (\<forall>v \<in> set (users (foldl (\<lambda>acc t. fst (expiry_tick t acc)) d ts)).
            user_id v = i \<longrightarrow> subscription_tier v = 0)"
proof (induction ts rule: rev_induct)
  case Nil
  from assms show ?case by simp
next
  case (snoc t ts)
  let ?d = "foldl (\<lambda>acc t. fst (expiry_tick t acc)) d ts"
  from snoc have dist: "distinct (map user_id (users ?d))"
    and z: "\<forall>v \<in> set (users ?d). user_id v = i \<longrightarrow> subscription_tier v = 0"
    by simp_all
  have "distinct (map user_id (users (fst (expiry_tick t ?d))))"
    using dist by (simp only: expiry_tick_ids[OF dist])
  moreover note expiry_tick_keeps_tier0[OF dist z, of t]
  ultimately show ?case by simp
qed

lemma update_first_list_all:
  assumes "list_all P us" and "\<And>x. P x \<Longrightarrow> P (f x)"
  shows "list_all P (update_first i f us)"
  using assms by (induction us) auto

lemma updateUser_list_all:
  assumes "list_all P (users d)" and "\<And>x. P x \<Longrightarrow> P (f x)"
  shows "list_all P (users (updateUser i f d))"
  using assms by (simp add: updateUser_def update_first_list_all)

lemma foldl_updateUser_list_all:
  assumes "list_all P (users d)" and "\<And>u x. P x \<Longrightarrow> P (f u x)"
  shows "list_all P (users (foldl (\<lambda>acc u. updateUser (user_id u) (f u) acc) d xs))"
  using assms(1)
proof (induction xs arbitrary: d)
  case Nil
  then show ?case by simp
next
  case (Cons x xs)
  from Cons.prems have "list_all P (users (updateUser (user_id x) (f x) d))"
    by (rule updateUser_list_all) (rule assms(2))
  then show ?case using Cons.IH by simp
qed

text \<open>
  Every handler keeps the invariant of the data model, with one exception:
  \<^verbatim>\<open>lock-all-paused\<close> keeps it only while the global pause is off. (For a subscription this
  is said of the store a typed write leaves; the handler writes the balance, the tier and the
  expiry only.)
\<close>

lemma frozen_iff_paused_kept:
  assumes inv: "list_all frozen_iff_paused (users d)"
  shows "list_all frozen_iff_paused (users (fst (admin_pause now uid d)))"
    and "list_all frozen_iff_paused (users (fst (unpause now ruser d)))"
    and "\<And>d' r. subscribe now ruser radmin tier hours d = Subscribed d' r \<Longrightarrow>
           list_all frozen_iff_paused (users d')"
    and "list_all frozen_iff_paused (users (fst (warn now admin uid reason d)))"
    and "list_all frozen_iff_paused (users (fst (validate now key hw rbx d)))"
    and "list_all frozen_iff_paused (users (fst (remove_hours now uid hours d)))"
    and "list_all frozen_iff_paused (users (fst (expiry_tick now d)))"
    and "\<not> global_paused d \<Longrightarrow>
           list_all frozen_iff_paused (users (fst (lock_all_paused now d)))"
proof -
  note step = updateUser_list_all[OF inv]
  show "list_all frozen_iff_paused (users (fst (admin_pause now uid d)))"
    using inv by (auto simp: admin_pause_def Let_def frozen_iff_paused_def
        intro!: step split: option.splits)
  show "list_all frozen_iff_paused (users (fst (unpause now ruser d)))"
    using inv by (auto simp: unpause_def Let_def frozen_iff_paused_def
        intro!: step split: option.splits)
  show "list_all frozen_iff_paused (users d')"
    if "subscribe now ruser radmin tier hours d = Subscribed d' r" for d' r
    using that inv by (auto simp: subscribe_def Let_def frozen_iff_paused_def
        intro!: step split: option.splits sum.splits prod.splits if_splits)
  show "list_all frozen_iff_paused (users (fst (warn now admin uid reason d)))"
    using inv by (auto simp: warn_def Let_def frozen_iff_paused_def
        intro!: step split: option.splits)
  show "list_all frozen_iff_paused (users (fst (validate now key hw rbx d)))"
    using inv by (auto simp: validate_def validate_updates_def Let_def frozen_iff_paused_def
        intro!: step split: option.splits)
  show "list_all frozen_iff_paused (users (fst (remove_hours now uid hours d)))"
    using inv by (auto simp: remove_hours_def Let_def frozen_iff_paused_def
        intro!: step split: option.splits jsnum.splits)
  show "list_all frozen_iff_paused (users (fst (expiry_tick now d)))"
    unfolding expiry_tick_def fst_conv
    by (rule foldl_updateUser_list_all[OF inv]) (simp add: frozen_iff_paused_def)
  show "list_all frozen_iff_paused (users (fst (lock_all_paused now d)))" if "\<not> global_paused d"
  proof -
    have "foldl lock_one d xs =
        foldl (\<lambda>acc u. updateUser (user_id u) (\<lambda>x. x\<lparr>pause_locked := True\<rparr>) acc) d xs" for xs
      using that
    proof (induction xs arbitrary: d)
      case Nil
      show ?case by simp
    next
      case (Cons x xs)
      have g: "\<not> global_paused (updateUser (user_id x) (\<lambda>x. x\<lparr>pause_locked := True\<rparr>) d)"
        using Cons.prems by (simp add: updateUser_def)
      show ?case
        using Cons.prems Cons.IH[OF g] by (simp add: lock_one_def)
    qed
    then show ?thesis
      using inv
      by (auto simp: lock_all_paused_def frozen_iff_paused_def
          intro!: foldl_updateUser_list_all)
  qed
qed

text \<open>
  A paused user with an hour frozen, asked about after the stored expiry has passed: none of
  the earlier checks applies and the effective-read rule calls the user active, yet
  \<^verbatim>\<open>GET /api/validate\<close> answers \<open>SubscriptionExpired\<close>. The handler compares the stored expiry
  with the clock and reads neither the paused flag nor the frozen time, which the pause
  handler stores so that the time does not keep counting down.
\<close>

lemma validate_reads_stored_expiry:
  "\<not> banned_device db_fay (Some ''HW-1'') \<and>
   findUser_license_key db_fay ''ULTRA-FFFF'' = Some fay \<and>
   warnings fay < 2 \<and> \<not> banned_device db_fay (hwid fay) \<and>
   paused fay \<and> isActive_spec fay 4000000 \<and> hwid fay = None \<and>
   validate 4000000 (Some ''ULTRA-FFFF'') (Some ''HW-1'') None db_fay =
     (db_fay, Inl SubscriptionExpired)"
  by (simp add: validate_def db_fay_def fay_def empty_db_def new_user_def banned_device_def
      isHWIDBanned_def findUser_license_key_def isActive_spec_def)

section \<open>Properties\<close>

subsection \<open>Removing hours\<close>

text \<open>
  C10. Removing \<open>h > 0\<close> hours from an existing user: when the stored expiry less \<open>h\<close> hours
  is before the clock reading, the expiry and the tier both become 0; otherwise the expiry
  goes down by exactly \<open>h * 3600000\<close> milliseconds and nothing else changes. Either way
  the expiry left behind is 0 or not before the clock reading. An infinite \<open>h\<close> sets both
  to 0.
\<close>

theorem remove_hours_effect:
  assumes "findUser_id d userId = Some u" and "0 < h"
  shows "(\<exists>u'. findUser_id (fst (remove_hours now userId (Num h) d)) userId = Some u' \<and>
           (if subscription_expires u - h * 3600000 < now
            then u' = u\<lparr>subscription_expires := 0, subscription_tier := 0\<rparr>
            else u' = u\<lparr>subscription_expires := subscription_expires u - h * 3600000\<rparr>) \<and>
           (subscription_expires u' = 0 \<or> now \<le> subscription_expires u')) \<and>
         findUser_id (fst (remove_hours now userId PosInf d)) userId =
           Some (u\<lparr>subscription_expires := 0, subscription_tier := 0\<rparr>)"
  using assms
  by (auto simp: remove_hours_def Let_def findUser_id_updateUser_same)

theorem remove_hours_effect_witness:
  "\<exists>u'. findUser_id (fst (remove_hours 1000 ''u1'' (Num 1) db_ann)) ''u1'' = Some u' \<and>
     subscription_expires u' = 6400000 \<and> subscription_tier u' = 1"
  using remove_hours_effect[of db_ann "''u1''" ann 1 1000]
  by (auto simp: db_ann_def ann_def empty_db_def new_user_def findUser_id_def)

subsection \<open>The fair conversion\<close>

text \<open>
  C1. The conversion is what the handler computes for every tier of the catalogue (lemma
  \<open>subscribe_conversion_catalogue\<close>), and the last equation below is the claim's own example:
  10 hours left on Bronze (1.00 an hour), 2 hours of Gold (3.50 an hour) bought, 20/7 hours
  converted and 34/7 hours in all. The claim fails for a tier that is no plan. The same user
  asks for 2 hours of the tier \<^verbatim>\<open>constructor\<close>: \<^verbatim>\<open>PLANS[tier]\<close> finds the member of
  \<^verbatim>\<open>Object.prototype\<close> of that name, the test \<^verbatim>\<open>if (!plan)\<close> lets it through as a plan, its
  price is undefined, and the request is answered with success, the converted hours, the
  total and the new expiry all NaN. The three values written into the user object are the
  balance NaN, the tier \<^verbatim>\<open>constructor\<close> and the expiry NaN.
\<close>

theorem subscribe_inherited_key_conversion:
  "findUser_id db_bob ''u2'' = Some bob \<and>
   1000 < subscription_expires bob \<and> 0 < subscription_tier bob \<and>
   (subscription_expires bob - 1000) / 3600000 = 10 \<and>
   PLANS db_bob (TInherited K_constructor) = Some (Inherited K_constructor) \<and>
   plan_price (Inherited K_constructor) = NaN \<and>
   subscribe 1000 (Some ''u2'') False (TInherited K_constructor) (Num 2) db_bob =
     SubscribedUntyped
       \<lparr>new_balance = NaN, expires = NaN, hours_added = 2, converted_hours = NaN,
        total_hours = NaN\<rparr> \<and>
   subscribe 1000 (Some ''u2'') False (TNum 3) (Num 2) db_bob =
     Subscribed
       (updateUser ''u2''
          (\<lambda>x. x\<lparr>balance := 3, subscription_tier := 3,
                 subscription_expires := 1000 + 34 / 7 * 3600000\<rparr>) db_bob)
       \<lparr>new_balance = Num 3, expires = Num (1000 + 34 / 7 * 3600000), hours_added = 2,
        converted_hours = Num (20 / 7), total_hours = Num (34 / 7)\<rparr>"
  by (simp add: sub_defs db_bob_def bob_def)

subsection \<open>Slot admission\<close>

text \<open>
  C2. Slot admission is what the handler does for every tier of the catalogue (lemma
  \<open>subscribe_slots_catalogue\<close>, with the count written out). On the store \<open>db_full\<close> both
  Bronze slots are held at clock reading 1000, and the third user's request for Bronze is
  refused with \<open>SlotsFull\<close> and the count 2, the claim's scenario. At clock reading 6000000
  the first holder's subscription has run out, and the same request is admitted: only
  unexpired users count. At clock reading 1000 the second holder renews Bronze for 2 hours
  and is admitted, the 2.5 hours left carried over: the requesting user does not count. The claim fails for a tier that is no plan.
  The third user asks for the tier \<^verbatim>\<open>constructor\<close> at clock reading 1000: the test
  \<^verbatim>\<open>if (!plan)\<close> lets the member of \<^verbatim>\<open>Object.prototype\<close> through as a plan, it has no slots,
  \<^verbatim>\<open>plan.slots || 2\<close> is 2, and the request is admitted and answered with success.
\<close>

theorem subscribe_inherited_key_slots:
  "subscribe 1000 (Some ''u3'') False (TNum 1) (Num 2) db_full =
     Refused (SlotsFull (Some ''Bronze'') 2 2) \<and>
   subscribe 6000000 (Some ''u3'') False (TNum 1) (Num 2) db_full =
     Subscribed
       (updateUser ''u3''
          (\<lambda>x. x\<lparr>balance := 8, subscription_tier := 1, subscription_expires := 13200000\<rparr>)
          db_full)
       \<lparr>new_balance = Num 8, expires = Num 13200000, hours_added = 2,
        converted_hours = Num 0, total_hours = Num 2\<rparr> \<and>
   subscribe 1000 (Some ''v2'') False (TNum 1) (Num 2) db_full =
     Subscribed
       (updateUser ''v2''
          (\<lambda>x. x\<lparr>balance := 8, subscription_tier := 1, subscription_expires := 16201000\<rparr>)
          db_full)
       \<lparr>new_balance = Num 8, expires = Num 16201000, hours_added = 2,
        converted_hours = Num (5 / 2), total_hours = Num (9 / 2)\<rparr> \<and>
   PLANS db_full (TInherited K_constructor) = Some (Inherited K_constructor) \<and>
   maxSlots (Inherited K_constructor) = 2 \<and>
   activeUsersOnTier 1000 (TInherited K_constructor) ''u3'' db_full = 0 \<and>
   subscribe 1000 (Some ''u3'') False (TInherited K_constructor) (Num 2) db_full =
     SubscribedUntyped
       \<lparr>new_balance = NaN, expires = Num 7201000, hours_added = 2, converted_hours = Num 0,
        total_hours = Num 2\<rparr>"
  by (simp add: sub_defs db_full_def carl_def)

subsection \<open>What a subscription costs\<close>

text \<open>
  C9. The cost is what the handler takes for every tier of the catalogue (lemma
  \<open>subscribe_balance_catalogue\<close>, with the rounding written out). A user with a balance of
  5 buys 2.45 hours of Bronze: the purchased hours are 2.5, and the balance left is 2.5. A
  user with a balance of 0 asks for 2 hours of Bronze and is refused with
  \<open>InsufficientBalance\<close>, 2 needed and 0 held. The claim fails for a tier that is no plan.
  The user with a balance of 0 asks for 2 hours of the tier \<^verbatim>\<open>constructor\<close>: the test
  \<^verbatim>\<open>if (!plan)\<close> lets the member of \<^verbatim>\<open>Object.prototype\<close> through as a plan, its price is
  undefined, the cost is NaN, the comparison \<^verbatim>\<open>(user.balance || 0) < cost\<close> is false, and the
  request is answered with success and two hours until the expiry. The balance written is
  NaN, not the old balance less the hours times a price.
\<close>

theorem subscribe_inherited_key_balance:
  "balance dana = 5 \<and>
   subscribe 1000 (Some ''u4'') False (TNum 1) (Num (49 / 20)) db_dana =
     Subscribed
       (updateUser ''u4''
          (\<lambda>x. x\<lparr>balance := 5 / 2, subscription_tier := 1,
                 subscription_expires := 9001000\<rparr>) db_dana)
       \<lparr>new_balance = Num (5 / 2), expires = Num 9001000, hours_added = 5 / 2,
        converted_hours = Num 0, total_hours = Num (5 / 2)\<rparr> \<and>
   balance eve = 0 \<and>
   subscribe 1000 (Some ''u5'') False (TNum 1) (Num 2) db_eve =
     Refused (InsufficientBalance (Num 2) 0) \<and>
   plan_price (Inherited K_constructor) = NaN \<and>
   js_lt (Num (balance eve)) (js_mul (Num 2) (plan_price (Inherited K_constructor))) = False \<and>
   subscribe 1000 (Some ''u5'') False (TInherited K_constructor) (Num 2) db_eve =
     SubscribedUntyped
       \<lparr>new_balance = NaN, expires = Num 7201000, hours_added = 2, converted_hours = Num 0,
        total_hours = Num 2\<rparr>"
  by (simp add: sub_defs db_dana_def dana_def db_eve_def eve_def)

subsection \<open>Pausing and resuming\<close>

text \<open>
  C3, as amended. Pausing a user who is not paused stores the time left, not below 0, and
  leaves the stored expiry as it was. The user's own request to resume is permitted exactly
  when the user is paused and not locked; it sets the expiry to the clock reading plus the
  stored time (0 when none is stored) and clears the flag and the stored time. So a pause
  and a permitted resume at the same clock reading leave the expiry at the larger of its old
  value and the clock reading: the old value when that was not in the past, the clock
  reading when it was.

  The claim as stated says the old expiry comes back for every user that is not paused. The
  counterexample is a new user (expiry 0) paused and resumed at clock reading 1000: the
  expiry is 1000 afterwards.
\<close>

theorem pause_then_unpause:
  assumes user: "findUser_id d rid = Some u" and active: "\<not> paused u"
  shows "findUser_id (fst (admin_pause now rid d)) rid =
           Some (u\<lparr>paused := True, pause_locked := False,
                   paused_time_remaining := Some (max 0 (subscription_expires u - now)),
                   paused_at := Some now\<rparr>) \<and>
         snd (unpause now (Some rid) (fst (admin_pause now rid d))) = Inr () \<and>
         (\<exists>u'. findUser_id (fst (unpause now (Some rid) (fst (admin_pause now rid d)))) rid
                 = Some u' \<and>
               subscription_expires u' = max (subscription_expires u) now \<and>
               \<not> paused u' \<and> paused_time_remaining u' = None) \<and>
         (\<forall>d2 v t. findUser_id d2 rid = Some v \<longrightarrow>
            (snd (unpause t (Some rid) d2) = Inr ()) = (paused v \<and> \<not> pause_locked v) \<and>
            (paused v \<and> \<not> pause_locked v \<longrightarrow>
               findUser_id (fst (unpause t (Some rid) d2)) rid =
                 Some (v\<lparr>paused := False, unpause_requested := False,
                         subscription_expires :=
                           t + (case paused_time_remaining v of None \<Rightarrow> 0 | Some r \<Rightarrow> r),
                         paused_time_remaining := None, paused_at := None\<rparr>)))"
proof -
  let ?d1 = "fst (admin_pause now rid d)"
  let ?u1 = "u\<lparr>paused := True, pause_locked := False,
                paused_time_remaining := Some (max 0 (subscription_expires u - now)),
                paused_at := Some now\<rparr>"
  have p: "findUser_id ?d1 rid = Some ?u1"
    using user active by (rule findUser_id_admin_pause)
  have ok: "snd (unpause now (Some rid) ?d1) = Inr ()"
    using unpause_permitted[OF p] by simp
  have "findUser_id (fst (unpause now (Some rid) ?d1)) rid =
     Some (?u1\<lparr>paused := False, unpause_requested := False,
             subscription_expires :=
               now + (case paused_time_remaining ?u1 of None \<Rightarrow> 0 | Some r \<Rightarrow> r),
             paused_time_remaining := None, paused_at := None\<rparr>)"
    by (rule findUser_id_unpause[OF p]) simp_all
  then have restored: "\<exists>u'. findUser_id (fst (unpause now (Some rid) ?d1)) rid = Some u' \<and>
               subscription_expires u' = max (subscription_expires u) now \<and>
               \<not> paused u' \<and> paused_time_remaining u' = None"
    by (auto simp: max_def)
  have gen: "(snd (unpause t (Some rid) d2) = Inr ()) = (paused v \<and> \<not> pause_locked v) \<and>
            (paused v \<and> \<not> pause_locked v \<longrightarrow>
               findUser_id (fst (unpause t (Some rid) d2)) rid =
                 Some (v\<lparr>paused := False, unpause_requested := False,
                         subscription_expires :=
                           t + (case paused_time_remaining v of None \<Rightarrow> 0 | Some r \<Rightarrow> r),
                         paused_time_remaining := None, paused_at := None\<rparr>))"
    if "findUser_id d2 rid = Some v" for d2 v t
    using unpause_permitted[OF that] findUser_id_unpause[OF that] by blast
  from p ok restored gen show ?thesis by blast
qed

theorem pause_then_unpause_witness:
  "findUser_id db_bob ''u2'' = Some bob \<and> \<not> paused bob \<and>
   map_option paused_time_remaining (findUser_id (fst (admin_pause 1000 ''u2'' db_bob)) ''u2'')
     = Some (Some 36000000) \<and>
   map_option subscription_expires (findUser_id (fst (admin_pause 1000 ''u2'' db_bob)) ''u2'')
     = Some 36001000 \<and>
   snd (unpause 1000 (Some ''u2'') (fst (admin_pause 1000 ''u2'' db_bob))) = Inr () \<and>
   (\<exists>u'. findUser_id (fst (unpause 1000 (Some ''u2'') (fst (admin_pause 1000 ''u2'' db_bob))))
            ''u2'' = Some u' \<and> subscription_expires u' = 36001000)"
proof -
  have fu: "findUser_id db_bob ''u2'' = Some bob"
    by (simp add: findUser_id_def db_bob_def empty_db_def bob_def new_user_def)
  have np: "\<not> paused bob" by (simp add: bob_def new_user_def)
  have ex: "subscription_expires bob = 36001000" by (simp add: bob_def new_user_def)
  note th = pause_then_unpause[OF fu np, of 1000]
  from th have a: "findUser_id (fst (admin_pause 1000 ''u2'' db_bob)) ''u2'' =
           Some (bob\<lparr>paused := True, pause_locked := False,
                   paused_time_remaining := Some (max 0 (subscription_expires bob - 1000)),
                   paused_at := Some 1000\<rparr>)"
    by (rule conjunct1)
  from th have b: "snd (unpause 1000 (Some ''u2'') (fst (admin_pause 1000 ''u2'' db_bob))) = Inr ()"
    by (rule conjunct1[OF conjunct2])
  from th have c: "\<exists>u'. findUser_id (fst (unpause 1000 (Some ''u2'')
        (fst (admin_pause 1000 ''u2'' db_bob)))) ''u2'' = Some u' \<and>
               subscription_expires u' = max (subscription_expires bob) 1000 \<and>
               \<not> paused u' \<and> paused_time_remaining u' = None"
    by (rule conjunct1[OF conjunct2[OF conjunct2]])
  from c have c': "\<exists>u'. findUser_id (fst (unpause 1000 (Some ''u2'')
        (fst (admin_pause 1000 ''u2'' db_bob)))) ''u2'' = Some u' \<and>
               subscription_expires u' = 36001000"
    by (auto simp: ex)
  from a have a1: "map_option paused_time_remaining
       (findUser_id (fst (admin_pause 1000 ''u2'' db_bob)) ''u2'') = Some (Some 36000000)"
    and a2: "map_option subscription_expires
       (findUser_id (fst (admin_pause 1000 ''u2'' db_bob)) ''u2'') = Some 36001000"
    by (simp_all add: ex)
  from fu np a1 a2 b c' show ?thesis by blast
qed

theorem pause_then_unpause_counterexample:
  "findUser_id db_eve ''u5'' = Some eve \<and> paused eve = False \<and>
   subscription_expires eve = 0 \<and>
   snd (unpause 1000 (Some ''u5'') (fst (admin_pause 1000 ''u5'' db_eve))) = Inr () \<and>
   map_option subscription_expires
     (findUser_id (fst (unpause 1000 (Some ''u5'') (fst (admin_pause 1000 ''u5'' db_eve)))) ''u5'')
     = Some 1000"
  by (simp add: db_eve_def eve_def empty_db_def new_user_def findUser_id_def admin_pause_def
      unpause_def updateUser_def Let_def)

subsection \<open>The order of the validation checks\<close>

text \<open>
  C4, as amended. \<^verbatim>\<open>GET /api/validate\<close> answers by the first of these that applies: no key
  (absent or empty): \<open>NoKeyProvided\<close>; the presented device is banned: \<open>Banned\<close>; no user has
  the key: \<open>InvalidKey\<close>; the user has 2 warnings or more: \<open>Banned\<close>; the user's bound device
  is banned: \<open>Banned\<close>; and for a user that is not paused: the user is not active by the
  effective-read rule: \<open>SubscriptionExpired\<close>; a device is bound and differs from the presented
  one: \<open>HWIDMismatch\<close>; otherwise the key is valid. On a valid key a bound device stays as it
  is, and a user with none gets the presented device bound, with one more history entry (the
  user being the first of the store with its id, which is where \<^verbatim>\<open>updateUser\<close> writes).

  The claim as stated begins with the ban of the presented device. The handler begins with
  the test \<^verbatim>\<open>if (!key)\<close>: the counterexample is a request with no key that presents a banned
  device, answered \<open>NoKeyProvided\<close> and not \<open>Banned\<close>.
\<close>

theorem validate_check_order:
  "(\<not> truthy key \<longrightarrow> validate now key hw rbx d = (d, Inl NoKeyProvided)) \<and>
   (\<forall>k. key = Some k \<and> k \<noteq> [] \<longrightarrow>
      (banned_device d hw \<longrightarrow> validate now key hw rbx d = (d, Inl (Banned HWIDBlocked))) \<and>
      (\<not> banned_device d hw \<and> findUser_license_key d k = None \<longrightarrow>
         validate now key hw rbx d = (d, Inl InvalidKey)) \<and>
      (\<forall>u. \<not> banned_device d hw \<and> findUser_license_key d k = Some u \<longrightarrow>
         (2 \<le> warnings u \<longrightarrow> validate now key hw rbx d = (d, Inl (Banned TwoWarnings))) \<and>
         (warnings u < 2 \<and> banned_device d (hwid u) \<longrightarrow>
            validate now key hw rbx d = (d, Inl (Banned HWIDBlocked))) \<and>
         (\<not> paused u \<and> warnings u < 2 \<and> \<not> banned_device d (hwid u) \<and>
          \<not> isActive_spec u now \<longrightarrow>
            validate now key hw rbx d = (d, Inl SubscriptionExpired)) \<and>
         (\<not> paused u \<and> warnings u < 2 \<and> \<not> banned_device d (hwid u) \<and>
          isActive_spec u now \<and> truthy (hwid u) \<and> hwid u \<noteq> hw \<longrightarrow>
            validate now key hw rbx d = (d, Inl HWIDMismatch)) \<and>
         (\<not> paused u \<and> warnings u < 2 \<and> \<not> banned_device d (hwid u) \<and>
          isActive_spec u now \<and> \<not> (truthy (hwid u) \<and> hwid u \<noteq> hw) \<longrightarrow>
            (\<exists>ok. snd (validate now key hw rbx d) = Inr ok \<and> v_tier ok = subscription_tier u) \<and>
            ((truthy (hwid u) \<or> \<not> truthy hw) \<and> findUser_id d (user_id u) = Some u \<longrightarrow>
               (\<exists>u'. findUser_id (fst (validate now key hw rbx d)) (user_id u) = Some u' \<and>
                     hwid u' = hwid u \<and> hwid_history u' = hwid_history u)) \<and>
            (\<forall>h. \<not> truthy (hwid u) \<and> hw = Some h \<and> h \<noteq> [] \<and>
                 findUser_id d (user_id u) = Some u \<longrightarrow>
               (\<exists>u'. findUser_id (fst (validate now key hw rbx d)) (user_id u) = Some u' \<and>
                     hwid u' = Some h \<and>
                     hwid_history u' = hwid_history u @ [(h, now, ''set'')])))))"
  apply (intro conjI allI impI; (elim conjE)?)
  subgoal by (simp add: validate_def truthy_def split: option.splits)
  subgoal by (simp add: validate_def)
  subgoal by (simp add: validate_def)
  subgoal by (simp add: validate_def)
  subgoal by (simp add: validate_def)
  subgoal by (simp add: validate_def isActive_spec_def)
  subgoal by (simp add: validate_def isActive_spec_def)
  subgoal by (rule validate_valid(2); simp add: isActive_spec_def)
  subgoal by (rule validate_keeps_binding; simp add: isActive_spec_def)
  subgoal by (rule validate_binds; simp add: isActive_spec_def)
  done

theorem validate_check_order_witness:
  "findUser_license_key db_bob ''ULTRA-BBBB'' = Some bob \<and>
   \<not> banned_device db_bob (Some ''HW-1'') \<and> \<not> paused bob \<and> warnings bob < 2 \<and>
   \<not> banned_device db_bob (hwid bob) \<and> isActive_spec bob 1000 \<and>
   \<not> truthy (hwid bob) \<and>
   (\<exists>u'. findUser_id (fst (validate 1000 (Some ''ULTRA-BBBB'') (Some ''HW-1'') None db_bob))
            (user_id bob) = Some u' \<and>
         hwid u' = Some ''HW-1'' \<and> hwid_history u' = hwid_history bob @ [(''HW-1'', 1000, ''set'')])"
proof -
  have h1: "findUser_license_key db_bob ''ULTRA-BBBB'' = Some bob"
    by (simp add: findUser_license_key_def db_bob_def empty_db_def bob_def new_user_def)
  have h2: "\<not> banned_device db_bob (Some ''HW-1'')" "\<not> banned_device db_bob (hwid bob)"
    by (simp_all add: banned_device_def isHWIDBanned_def db_bob_def empty_db_def bob_def
        new_user_def)
  have h3: "warnings bob < 2" "\<not> paused bob" "isActive_spec bob 1000" "\<not> truthy (hwid bob)"
    by (simp_all add: bob_def new_user_def truthy_def isActive_spec_def)
  have h4: "findUser_id db_bob (user_id bob) = Some bob"
    by (simp add: findUser_id_def db_bob_def empty_db_def bob_def new_user_def)
  have h5: "\<not> (truthy (hwid bob) \<and> hwid bob \<noteq> Some ''HW-1'')"
    using h3 by simp
  have k: "Some ''ULTRA-BBBB'' = Some ''ULTRA-BBBB'' \<and> ''ULTRA-BBBB'' \<noteq> []"
    by simp
  from validate_check_order[of "Some ''ULTRA-BBBB''" 1000 "Some ''HW-1''" None db_bob]
  have "\<forall>h. \<not> truthy (hwid bob) \<and> Some ''HW-1'' = Some h \<and> h \<noteq> [] \<and>
                 findUser_id db_bob (user_id bob) = Some bob \<longrightarrow>
               (\<exists>u'. findUser_id (fst (validate 1000 (Some ''ULTRA-BBBB'') (Some ''HW-1'') None
                        db_bob)) (user_id bob) = Some u' \<and>
                     hwid u' = Some h \<and>
                     hwid_history u' = hwid_history bob @ [(h, 1000, ''set'')])"
    using k h1 h2 h3 h5 by blast
  then have "\<exists>u'. findUser_id (fst (validate 1000 (Some ''ULTRA-BBBB'') (Some ''HW-1'') None
                        db_bob)) (user_id bob) = Some u' \<and>
                     hwid u' = Some ''HW-1'' \<and>
                     hwid_history u' = hwid_history bob @ [(''HW-1'', 1000, ''set'')]"
    using h3 h4 by simp
  with h1 h2 h3 show ?thesis by blast
qed

theorem validate_counterexample:
  "banned_device (db_bob\<lparr>banned_hwids := [''HW-9'']\<rparr>) (Some ''HW-9'') \<and>
   validate 1000 None (Some ''HW-9'') None (db_bob\<lparr>banned_hwids := [''HW-9'']\<rparr>) =
     (db_bob\<lparr>banned_hwids := [''HW-9'']\<rparr>, Inl NoKeyProvided) \<and>
   validate 1000 (Some []) (Some ''HW-9'') None (db_bob\<lparr>banned_hwids := [''HW-9'']\<rparr>) =
     (db_bob\<lparr>banned_hwids := [''HW-9'']\<rparr>, Inl NoKeyProvided)"
  by (simp add: validate_def db_bob_def empty_db_def banned_device_def isHWIDBanned_def)

subsection \<open>Two warnings ban the device\<close>

text \<open>
  C5, as amended. A user with a bound device and no warning is warned twice. Afterwards the
  user has 2 warnings, and the device is in the ban list: appended once when it was not
  there, the list left as it was when it was there already. Every validation after that
  which gives a key and presents the device answers \<open>Banned\<close>; one that gives no key answers
  \<open>NoKeyProvided\<close>.

  The claim as stated has \<open>Banned\<close> for every validation presenting the device. The handler
  begins with the test \<^verbatim>\<open>if (!key)\<close>: the counterexample is the store after the two warnings
  and a request with no key, or an empty one, presenting the banned device.
\<close>

theorem two_warnings_ban_device:
  assumes user: "findUser_id d uid = Some u"
      and bound: "hwid u = Some h" "h \<noteq> []"
      and fresh: "warnings u = 0"
  shows "(\<exists>u'. findUser_id (fst (warn t2 a2 uid r2 (fst (warn t1 a1 uid r1 d)))) uid = Some u' \<and>
               warnings u' = 2 \<and> hwid u' = Some h) \<and>
         banned_hwids (fst (warn t2 a2 uid r2 (fst (warn t1 a1 uid r1 d)))) =
           (if h \<in> set (banned_hwids d) then banned_hwids d else banned_hwids d @ [h]) \<and>
         h \<in> set (banned_hwids (fst (warn t2 a2 uid r2 (fst (warn t1 a1 uid r1 d))))) \<and>
         (h \<notin> set (banned_hwids d) \<longrightarrow>
            count_list (banned_hwids (fst (warn t2 a2 uid r2 (fst (warn t1 a1 uid r1 d))))) h = 1) \<and>
         (\<forall>now key rbx. truthy key \<longrightarrow>
            validate now key (Some h) rbx (fst (warn t2 a2 uid r2 (fst (warn t1 a1 uid r1 d)))) =
              (fst (warn t2 a2 uid r2 (fst (warn t1 a1 uid r1 d))), Inl (Banned HWIDBlocked))) \<and>
         (\<forall>now key rbx. \<not> truthy key \<longrightarrow>
            validate now key (Some h) rbx (fst (warn t2 a2 uid r2 (fst (warn t1 a1 uid r1 d)))) =
              (fst (warn t2 a2 uid r2 (fst (warn t1 a1 uid r1 d))), Inl NoKeyProvided))"
proof -
  let ?d1 = "fst (warn t1 a1 uid r1 d)"
  let ?d2 = "fst (warn t2 a2 uid r2 ?d1)"
  let ?u1 = "u\<lparr>warnings := warnings u + 1\<rparr>"
  have u1: "findUser_id ?d1 uid = Some ?u1"
    and b1: "banned_hwids ?d1 = banned_hwids d"
    using warn_found[OF user bound, of t1 a1 r1] fresh by simp_all
  have h1: "hwid ?u1 = Some h" using bound by simp
  have u2: "findUser_id ?d2 uid = Some (?u1\<lparr>warnings := warnings ?u1 + 1\<rparr>)"
    and b2: "banned_hwids ?d2 =
       (if 2 \<le> warnings ?u1 + 1 \<and> h \<notin> set (banned_hwids ?d1)
        then banned_hwids ?d1 @ [h] else banned_hwids ?d1)"
    using warn_found[OF u1 h1 bound(2), of t2 a2 r2] by simp_all
  have A: "\<exists>u'. findUser_id ?d2 uid = Some u' \<and> warnings u' = 2 \<and> hwid u' = Some h"
    using u2 fresh bound by simp
  have B: "banned_hwids ?d2 =
           (if h \<in> set (banned_hwids d) then banned_hwids d else banned_hwids d @ [h])"
    using b2 b1 fresh by simp
  have C: "h \<in> set (banned_hwids ?d2)"
    using B by simp
  have D: "h \<notin> set (banned_hwids d) \<longrightarrow> count_list (banned_hwids ?d2) h = 1"
    using B by (simp add: count_list_0_iff)
  have E: "validate now key (Some h) rbx ?d2 = (?d2, Inl (Banned HWIDBlocked))"
    if "truthy key" for now key rbx
    using that C bound(2)
    by (simp add: validate_def banned_device_def isHWIDBanned_def truthy_def
        split: option.splits)
  have F: "validate now key (Some h) rbx ?d2 = (?d2, Inl NoKeyProvided)"
    if "\<not> truthy key" for now key rbx
    using that
    by (simp add: validate_def truthy_def split: option.splits)
  from A B C D E F show ?thesis by blast
qed

theorem two_warnings_ban_device_witness:
  "findUser_id db_hal ''u8'' = Some hal \<and> hwid hal = Some ''HW-8'' \<and> warnings hal = 0 \<and>
   banned_hwids
     (fst (warn 2000 ''yvyoo'' ''u8'' None (fst (warn 1000 ''yvyoo'' ''u8'' None db_hal))))
     = [''HW-8''] \<and>
   snd (validate 3000 (Some ''ULTRA-HHHH'') (Some ''HW-8'') None
     (fst (warn 2000 ''yvyoo'' ''u8'' None (fst (warn 1000 ''yvyoo'' ''u8'' None db_hal)))))
     = Inl (Banned HWIDBlocked) \<and>
   snd (validate 3000 None (Some ''HW-8'') None
     (fst (warn 2000 ''yvyoo'' ''u8'' None (fst (warn 1000 ''yvyoo'' ''u8'' None db_hal)))))
     = Inl NoKeyProvided"
proof -
  have fu: "findUser_id db_hal ''u8'' = Some hal"
    by (simp add: findUser_id_def db_hal_def empty_db_def hal_def new_user_def)
  have hw: "hwid hal = Some ''HW-8''" "''HW-8'' \<noteq> []" and w: "warnings hal = 0"
    by (simp_all add: hal_def new_user_def)
  have e: "banned_hwids db_hal = []" by (simp add: db_hal_def empty_db_def)
  have tk: "truthy (Some ''ULTRA-HHHH'')" and nk: "\<not> truthy None"
    by (simp_all add: truthy_def)
  note th = two_warnings_ban_device[OF fu hw w, of 2000 "''yvyoo''" None 1000 "''yvyoo''" None]
  from th have b: "banned_hwids
     (fst (warn 2000 ''yvyoo'' ''u8'' None (fst (warn 1000 ''yvyoo'' ''u8'' None db_hal))))
     = (if ''HW-8'' \<in> set (banned_hwids db_hal) then banned_hwids db_hal
        else banned_hwids db_hal @ [''HW-8''])"
    by (rule conjunct1[OF conjunct2])
  from th tk have v: "validate 3000 (Some ''ULTRA-HHHH'') (Some ''HW-8'') None
     (fst (warn 2000 ''yvyoo'' ''u8'' None (fst (warn 1000 ''yvyoo'' ''u8'' None db_hal))))
     = (fst (warn 2000 ''yvyoo'' ''u8'' None (fst (warn 1000 ''yvyoo'' ''u8'' None db_hal))),
        Inl (Banned HWIDBlocked))"
    by blast
  from th nk have n: "validate 3000 None (Some ''HW-8'') None
     (fst (warn 2000 ''yvyoo'' ''u8'' None (fst (warn 1000 ''yvyoo'' ''u8'' None db_hal))))
     = (fst (warn 2000 ''yvyoo'' ''u8'' None (fst (warn 1000 ''yvyoo'' ''u8'' None db_hal))),
        Inl NoKeyProvided)"
    by blast
  from b e have b': "banned_hwids
     (fst (warn 2000 ''yvyoo'' ''u8'' None (fst (warn 1000 ''yvyoo'' ''u8'' None db_hal))))
     = [''HW-8'']"
    by simp
  from v have v': "snd (validate 3000 (Some ''ULTRA-HHHH'') (Some ''HW-8'') None
     (fst (warn 2000 ''yvyoo'' ''u8'' None (fst (warn 1000 ''yvyoo'' ''u8'' None db_hal)))))
     = Inl (Banned HWIDBlocked)"
    by simp
  from n have n': "snd (validate 3000 None (Some ''HW-8'') None
     (fst (warn 2000 ''yvyoo'' ''u8'' None (fst (warn 1000 ''yvyoo'' ''u8'' None db_hal)))))
     = Inl NoKeyProvided"
    by simp
  from fu hw w b' v' n' show ?thesis by blast
qed

theorem two_warnings_ban_device_counterexample:
  "findUser_id db_hal ''u8'' = Some hal \<and> hwid hal = Some ''HW-8'' \<and> warnings hal = 0 \<and>
   banned_hwids
     (fst (warn 2000 ''yvyoo'' ''u8'' None (fst (warn 1000 ''yvyoo'' ''u8'' None db_hal))))
     = [''HW-8''] \<and>
   snd (validate 3000 None (Some ''HW-8'') None
     (fst (warn 2000 ''yvyoo'' ''u8'' None (fst (warn 1000 ''yvyoo'' ''u8'' None db_hal)))))
     = Inl NoKeyProvided \<and>
   snd (validate 3000 (Some []) (Some ''HW-8'') None
     (fst (warn 2000 ''yvyoo'' ''u8'' None (fst (warn 1000 ''yvyoo'' ''u8'' None db_hal)))))
     = Inl NoKeyProvided"
  by (simp add: validate_def warn_def findUser_id_def updateUser_def isHWIDBanned_def
      db_hal_def hal_def empty_db_def new_user_def Let_def)

subsection \<open>The sweep of expired subscriptions\<close>

text \<open>
  C8. In a store whose user ids are distinct, at a clock reading of at least 5 minutes (the
  clock counts milliseconds since 1970), a sweep takes exactly the users with a tier above 0
  whose stored expiry lies strictly between the clock reading less 5 minutes and the clock
  reading. It hands their Discord ids to the role removal, sets their tier to 0 and changes
  nothing else: the stored expiry stays. A user whose expiry is 10 minutes before the clock
  reading is not taken. A user taken by a sweep is taken by no sweep after it, however many
  follow and whenever they run, as long as only sweeps run.
\<close>

theorem expiry_tick_window:
  assumes ids: "distinct (map user_id (users d))" and clock: "5 * 60 * 1000 \<le> now"
  shows "expiredUsers now d =
           filter (\<lambda>u. 0 < subscription_tier u \<and> now - 5 * 60 * 1000 < subscription_expires u \<and>
                        subscription_expires u < now) (users d) \<and>
         snd (expiry_tick now d) = map discord_id (expiredUsers now d) \<and>
         users (fst (expiry_tick now d)) =
           map (\<lambda>u. if u \<in> set (expiredUsers now d) then u\<lparr>subscription_tier := 0\<rparr> else u)
             (users d) \<and>
         (\<forall>u \<in> set (users d). subscription_expires u = now - 10 * 60 * 1000 \<longrightarrow>
            u \<notin> set (expiredUsers now d)) \<and>
         (\<forall>ts t. \<forall>u \<in> set (expiredUsers now d).
            user_id u \<notin> user_id `
              set (expiredUsers t (foldl (\<lambda>acc t'. fst (expiry_tick t' acc))
                                    (fst (expiry_tick now d)) ts)))"
proof -
  have A: "expiredUsers now d =
           filter (\<lambda>u. 0 < subscription_tier u \<and> now - 5 * 60 * 1000 < subscription_expires u \<and>
                        subscription_expires u < now) (users d)"
    unfolding expiredUsers_def using clock by (intro filter_cong) auto
  have B: "snd (expiry_tick now d) = map discord_id (expiredUsers now d)"
    by (simp add: expiry_tick_def)
  note C = users_expiry_tick[OF ids, of now]
  have D: "\<forall>u \<in> set (users d). subscription_expires u = now - 10 * 60 * 1000 \<longrightarrow>
            u \<notin> set (expiredUsers now d)"
    by (auto simp: expiredUsers_def)
  have E: "user_id u \<notin> user_id `
              set (expiredUsers t (foldl (\<lambda>acc t'. fst (expiry_tick t' acc))
                                    (fst (expiry_tick now d)) ts))"
    if u: "u \<in> set (expiredUsers now d)" for ts t u
  proof -
    let ?d1 = "fst (expiry_tick now d)"
    let ?dn = "foldl (\<lambda>acc t'. fst (expiry_tick t' acc)) ?d1 ts"
    have inj: "inj_on user_id (set (users d))"
      using ids by (simp add: distinct_map)
    have sub: "set (expiredUsers now d) \<subseteq> set (users d)"
      by (auto simp: expiredUsers_def)
    have d1: "distinct (map user_id (users ?d1))"
      using ids by (simp only: expiry_tick_ids[OF ids])
    have z1: "\<forall>v \<in> set (users ?d1). user_id v = user_id u \<longrightarrow> subscription_tier v = 0"
    proof (intro ballI impI)
      fix v assume v: "v \<in> set (users ?d1)" and same: "user_id v = user_id u"
      from v obtain w where w: "w \<in> set (users d)"
        and vw: "v = (if w \<in> set (expiredUsers now d) then w\<lparr>subscription_tier := 0\<rparr> else w)"
        unfolding C by auto
      from vw same have "user_id w = user_id u" by (simp split: if_splits)
      with inj w u sub have "w = u" by (auto dest: inj_onD)
      with vw u show "subscription_tier v = 0" by simp
    qed
    from ticks_keep_tier0[OF d1 z1, of ts]
    have "\<forall>v \<in> set (users ?dn). user_id v = user_id u \<longrightarrow> subscription_tier v = 0"
      by simp
    then show ?thesis
      by (auto simp: expiredUsers_def)
  qed
  from A B C D E show ?thesis by blast
qed

theorem expiry_tick_window_witness:
  "distinct (map user_id (users db_tick)) \<and> (5 * 60 * 1000 :: rat) \<le> 10000000 \<and>
   subscription_expires jo = 10000000 - 10 * 60 * 1000 \<and>
   expiredUsers 10000000 db_tick = [ivy] \<and>
   snd (expiry_tick 10000000 db_tick) = [''d9''] \<and>
   map subscription_tier (users (fst (expiry_tick 10000000 db_tick))) = [0, 2, 1] \<and>
   map subscription_expires (users (fst (expiry_tick 10000000 db_tick)))
     = [9900000, 9400000, 20000000] \<and>
   user_id ivy \<notin> user_id ` set (expiredUsers 10100000 (fst (expiry_tick 10000000 db_tick)))"
proof -
  have ids: "distinct (map user_id (users db_tick))"
    by (simp add: db_tick_def empty_db_def ivy_def jo_def kim_def new_user_def)
  have clock: "(5 * 60 * 1000 :: rat) \<le> 10000000" by simp
  have jo: "subscription_expires jo = 10000000 - 10 * 60 * 1000"
    by (simp add: jo_def new_user_def)
  have ev: "expiredUsers 10000000 db_tick = [ivy]"
    by (simp add: expiredUsers_def db_tick_def empty_db_def ivy_def jo_def kim_def new_user_def)
  note th = expiry_tick_window[OF ids clock]
  from th have out: "snd (expiry_tick 10000000 db_tick) = map discord_id (expiredUsers 10000000 db_tick)"
    by (rule conjunct1[OF conjunct2])
  from th have us: "users (fst (expiry_tick 10000000 db_tick)) =
           map (\<lambda>u. if u \<in> set (expiredUsers 10000000 db_tick)
                     then u\<lparr>subscription_tier := 0\<rparr> else u) (users db_tick)"
    by (rule conjunct1[OF conjunct2[OF conjunct2]])
  from th have once: "\<forall>ts t. \<forall>u \<in> set (expiredUsers 10000000 db_tick).
            user_id u \<notin> user_id `
              set (expiredUsers t (foldl (\<lambda>acc t'. fst (expiry_tick t' acc))
                                    (fst (expiry_tick 10000000 db_tick)) ts))"
    by (rule conjunct2[OF conjunct2[OF conjunct2[OF conjunct2]]])
  have o: "snd (expiry_tick 10000000 db_tick) = [''d9'']"
    unfolding out ev by (simp add: ivy_def new_user_def)
  have us': "users (fst (expiry_tick 10000000 db_tick)) = [ivy\<lparr>subscription_tier := 0\<rparr>, jo, kim]"
    unfolding us ev by (simp add: db_tick_def empty_db_def ivy_def jo_def kim_def new_user_def)
  have t: "map subscription_tier (users (fst (expiry_tick 10000000 db_tick))) = [0, 2, 1]"
    and e: "map subscription_expires (users (fst (expiry_tick 10000000 db_tick)))
     = [9900000, 9400000, 20000000]"
    unfolding us' by (simp_all add: ivy_def jo_def kim_def new_user_def)
  from once have "\<forall>u \<in> set (expiredUsers 10000000 db_tick).
            user_id u \<notin> user_id `
              set (expiredUsers 10100000 (foldl (\<lambda>acc t'. fst (expiry_tick t' acc))
                                    (fst (expiry_tick 10000000 db_tick)) []))"
    by blast
  with ev
  have n: "user_id ivy \<notin> user_id ` set (expiredUsers 10100000 (fst (expiry_tick 10000000 db_tick)))"
    by simp
  from ids clock jo ev o t e n show ?thesis by blast
qed

subsection \<open>Locking all users under the global pause\<close>

text \<open>
  C6. Under the global pause, \<^verbatim>\<open>lock-all-paused\<close> marks an active user that is not paused as
  paused and locked, but stores no frozen time: the remaining time is not frozen. Here the
  user has 10 hours left when locked at clock reading 1000. After the global pause is
  lifted the user's own resume is refused (locked), and an admin resume one hour later, at
  3601000, sets the expiry to 3601000: nothing is left, where a frozen 10 hours would have
  given 39601000.
\<close>

theorem lock_all_paused_does_not_freeze:
  "usersToLock 1000 db_lea = [lea] \<and>
   snd (lock_all_paused 1000 db_lea) = Inr 1 \<and>
   users (fst (lock_all_paused 1000 db_lea)) = [lea\<lparr>paused := True, pause_locked := True\<rparr>] \<and>
   map_option paused_time_remaining (findUser_id (fst (lock_all_paused 1000 db_lea)) ''u12'')
     = Some None \<and>
   snd (unpause 3601000 (Some ''u12'') (pause_all (fst (lock_all_paused 1000 db_lea))))
     = Inl PauseLocked \<and>
   map_option subscription_expires
     (findUser_id (fst (admin_pause 3601000 ''u12''
        (pause_all (fst (lock_all_paused 1000 db_lea))))) ''u12'') = Some 3601000"
  by (simp add: lock_all_paused_def usersToLock_def lock_one_def db_lea_def lea_def empty_db_def
      new_user_def updateUser_def findUser_id_def pause_all_def unpause_def admin_pause_def
      Let_def)

subsection \<open>Frozen time and the paused flag\<close>

text \<open>
  C7. The invariant holds for a new user and fails at the end of the history
  \<open>db_mia_locked\<close>: the user is paused and locked with tier 1 and expiry 7201000, and no
  frozen time is stored. The subscription of the history is the handler's: the request for 2
  hours of Bronze at clock reading 1000 on \<open>db_mia_paid\<close> is answered with success and leaves
  \<open>db_mia_subscribed\<close>. By \<open>frozen_iff_paused_kept\<close> no other handler breaks the invariant.
\<close>

theorem paused_without_frozen_time:
  "frozen_iff_paused mia \<and>
   map_option (\<lambda>u. (subscription_tier u, subscription_expires u, paused u, pause_locked u,
                     paused_time_remaining u))
     (findUser_id db_mia_locked ''u13'') = Some (1, 7201000, True, True, None) \<and>
   map_option frozen_iff_paused (findUser_id db_mia_locked ''u13'') = Some False \<and>
   subscribe 1000 (Some ''u13'') False (TNum 1) (Num 2) db_mia_paid =
     Subscribed db_mia_subscribed
       \<lparr>new_balance = Num 8, expires = Num 7201000, hours_added = 2, converted_hours = Num 0,
        total_hours = Num 2\<rparr>"
  by (simp add: sub_defs db_mia_locked_def db_mia_subscribed_def db_mia_paid_def mia_def
      createUser_def add_balance_def pause_all_def frozen_iff_paused_def
      lock_all_paused_def usersToLock_def lock_one_def)

end
